theory Spec2Isabelle
  imports Complex_Main
begin

section \<open>Scalars of the simulation\<close>

text \<open>
  The Taichi fields of the simulator hold 32-bit floats, and the kernels are compiled
  without run-time checks (\<^verbatim>\<open>debug=False\<close>): a division by zero does not raise, it
  yields an infinity or a NaN that is stored and propagated. A scalar of the kernel is
  therefore a finite real, one of the two infinities, or NaN. Finite arithmetic is exact
  (rounding and overflow are left out) and the special values follow IEEE 754. The one
  zero of the reals stands for the positive zero: the divisors of the kernels that can be
  zero are results of square roots, which are never the negative zero, and the time step,
  whose sign is kept beside it (see \<open>const_div\<close> below).
\<close>

datatype fl = Fin real | PInf | NInf | NaN

fun fneg :: "fl \<Rightarrow> fl" where
  "fneg (Fin a) = Fin (- a)"
| "fneg PInf = NInf"
| "fneg NInf = PInf"
| "fneg NaN = NaN"

fun fadd :: "fl \<Rightarrow> fl \<Rightarrow> fl" where
  "fadd (Fin a) (Fin b) = Fin (a + b)"
| "fadd NaN _ = NaN"
| "fadd _ NaN = NaN"
| "fadd PInf NInf = NaN"
| "fadd NInf PInf = NaN"
| "fadd PInf _ = PInf"
| "fadd _ PInf = PInf"
| "fadd NInf _ = NInf"
| "fadd _ NInf = NInf"

definition fsub :: "fl \<Rightarrow> fl \<Rightarrow> fl" where
  "fsub a b = fadd a (fneg b)"

fun fmul :: "fl \<Rightarrow> fl \<Rightarrow> fl" where
  "fmul (Fin a) (Fin b) = Fin (a * b)"
| "fmul NaN _ = NaN"
| "fmul _ NaN = NaN"
| "fmul (Fin a) PInf = (if a = 0 then NaN else if 0 < a then PInf else NInf)"
| "fmul (Fin a) NInf = (if a = 0 then NaN else if 0 < a then NInf else PInf)"
| "fmul PInf (Fin b) = (if b = 0 then NaN else if 0 < b then PInf else NInf)"
| "fmul NInf (Fin b) = (if b = 0 then NaN else if 0 < b then NInf else PInf)"
| "fmul PInf PInf = PInf"
| "fmul PInf NInf = NInf"
| "fmul NInf PInf = NInf"
| "fmul NInf NInf = PInf"

fun fdiv :: "fl \<Rightarrow> fl \<Rightarrow> fl" where
  "fdiv (Fin a) (Fin b) =
     (if b \<noteq> 0 then Fin (a / b)
      else if a = 0 then NaN else if 0 < a then PInf else NInf)"
| "fdiv NaN _ = NaN"
| "fdiv _ NaN = NaN"
| "fdiv (Fin a) PInf = Fin 0"
| "fdiv (Fin a) NInf = Fin 0"
| "fdiv PInf (Fin b) = (if 0 \<le> b then PInf else NInf)"
| "fdiv NInf (Fin b) = (if 0 \<le> b then NInf else PInf)"
| "fdiv PInf PInf = NaN"
| "fdiv PInf NInf = NaN"
| "fdiv NInf PInf = NaN"
| "fdiv NInf NInf = NaN"

fun fsqrt :: "fl \<Rightarrow> fl" where
  "fsqrt (Fin a) = (if 0 \<le> a then Fin (sqrt a) else NaN)"
| "fsqrt PInf = PInf"
| "fsqrt NInf = NaN"
| "fsqrt NaN = NaN"

text \<open>The ordered comparison \<^verbatim>\<open>a > b\<close>: false as soon as one side is NaN.\<close>

fun fgt :: "fl \<Rightarrow> fl \<Rightarrow> bool" where
  "fgt (Fin a) (Fin b) = (b < a)"
| "fgt NaN _ = False"
| "fgt _ NaN = False"
| "fgt PInf PInf = False"
| "fgt NInf NInf = False"
| "fgt PInf _ = True"
| "fgt _ PInf = False"
| "fgt NInf _ = False"
| "fgt _ NInf = True"

definition flt :: "fl \<Rightarrow> fl \<Rightarrow> bool" where
  "flt a b = fgt b a"

definition fge :: "fl \<Rightarrow> fl \<Rightarrow> bool" where
  "fge a b = (fgt a b \<or> (a = b \<and> a \<noteq> NaN))"

fun is_fin :: "fl \<Rightarrow> bool" where
  "is_fin (Fin a) = True"
| "is_fin _ = False"

section \<open>Vectors\<close>

type_synonym vec = "fl \<times> fl \<times> fl"
type_synonym rvec = "real \<times> real \<times> real"

fun vfin :: "rvec \<Rightarrow> vec" where
  "vfin (a, b, c) = (Fin a, Fin b, Fin c)"

fun vadd :: "vec \<Rightarrow> vec \<Rightarrow> vec" where
  "vadd (a, b, c) (d, e, f) = (fadd a d, fadd b e, fadd c f)"

fun vsub :: "vec \<Rightarrow> vec \<Rightarrow> vec" where
  "vsub (a, b, c) (d, e, f) = (fsub a d, fsub b e, fsub c f)"

fun smul :: "fl \<Rightarrow> vec \<Rightarrow> vec" where
  "smul k (a, b, c) = (fmul k a, fmul k b, fmul k c)"

fun vdivs :: "vec \<Rightarrow> fl \<Rightarrow> vec" where
  "vdivs (a, b, c) k = (fdiv a k, fdiv b k, fdiv c k)"

fun vneg :: "vec \<Rightarrow> vec" where
  "vneg (a, b, c) = (fneg a, fneg b, fneg c)"

fun norm_sqr :: "vec \<Rightarrow> fl" where
  "norm_sqr (a, b, c) = fadd (fadd (fmul a a) (fmul b b)) (fmul c c)"

text \<open>
  Taichi's \<^verbatim>\<open>Vector.norm(eps=0)\<close> is \<^verbatim>\<open>sqrt(norm_sqr() + eps)\<close> and
  \<^verbatim>\<open>Vector.normalized(eps=0)\<close> is \<^verbatim>\<open>(1 / (norm() + eps)) * self\<close>.
\<close>

definition vnorm :: "vec \<Rightarrow> fl" where
  "vnorm u = fsqrt (fadd (norm_sqr u) (Fin 0))"

definition normalized :: "vec \<Rightarrow> vec" where
  "normalized u = smul (fdiv (Fin 1) (fadd (vnorm u) (Fin 0))) u"

fun vis_fin :: "vec \<Rightarrow> bool" where
  "vis_fin (a, b, c) = (is_fin a \<and> is_fin b \<and> is_fin c)"

definition vzero :: vec where
  "vzero = (Fin 0, Fin 0, Fin 0)"

definition vnan :: vec where
  "vnan = (NaN, NaN, NaN)"


section \<open>Module constants\<close>

definition coll_r :: real where "coll_r = 1.01"
definition k_stretch :: real where "k_stretch = 0.9"
definition k_bend :: real where "k_bend = 0.7"
definition k_LRA :: real where "k_LRA = 0.5"
definition tether_give :: real where "tether_give = 0.2"
definition eps :: real where "eps = 1 / 1000"

definition gravity :: vec where
  "gravity = (Fin 0, Fin 0, Fin (- 9.8))"

section \<open>The simulation object\<close>

text \<open>
  The fields of \<^verbatim>\<open>TiClothSimulation\<close>, each under the name \<^verbatim>\<open>self_<field>\<close>.
  The positions \<^verbatim>\<open>x\<close>, the predicted positions \<^verbatim>\<open>p\<close> and the velocities
  \<^verbatim>\<open>v\<close> are written by the kernels and may become non-finite; everything else is
  written once by the constructor from the mesh and the settings and is finite. A Python
  float has two zeros: \<open>self_dt_negative_zero\<close> says that a time step of 0 is the float
  \<^verbatim>\<open>-0.0\<close>; it is not looked at when the time step is not 0.
\<close>

record sim =
  self_dt :: real
  self_dt_negative_zero :: bool
  self_device :: string
  self_substep_num :: nat
  self_solver_num :: nat
  self_drag_damping :: real
  self_enable_LRA :: bool
  self_frame_num :: nat
  self_vertex_num :: nat
  self_edge_num :: nat
  self_face_num :: nat
  self_link_num :: nat
  self_x :: "vec list"
  self_p :: "vec list"
  self_v :: "vec list"
  self_w :: "real list"
  self_link :: "(nat \<times> nat) list"
  self_link_len :: "real list"
  self_link_k :: "real list"
  self_link_idx :: nat
  self_coll_origin :: rvec
  self_attach :: "nat list"
  self_attach_num :: nat
  self_attach_pos :: "rvec list"
  self_tether_len :: "real list list"

section \<open>The substep kernel\<close>

text \<open>
  The statements of a kernel are taken in program order, every loop running its passes
  one after the other in the order of its range: each loop is a \<open>fold\<close> of its body over
  the indices, and each body is a function from state to state. Every index a kernel
  uses comes from a range over the size of the field it indexes or from the link table,
  which the constructor fills with vertex indices of the mesh.

  Taichi itself spreads the passes of an outermost loop of a kernel over threads. A pass
  of the predict, tether, collision or finalize loop writes only entries of its own
  vertex and reads none that another pass of the same loop writes. A pass of the link
  loop adds to the predicted positions of both endpoints of its link, so the passes of
  two links that share a vertex can interleave; and in \<^verbatim>\<open>substep_cpu\<close> the outermost
  loop is the solver loop, whose passes each run all three correction loops. Which
  interleavings occur is not part of this model: the functions below are the statements
  of the kernels in program order, and nothing is stated about how the results of the
  two kernels compare.
\<close>

text \<open>
  \<^verbatim>\<open>self.dt\<close> is a Python float when a kernel is compiled, so it is a constant of the
  compiled kernel, and \<^verbatim>\<open>ti.init(arch=ti.cpu, debug=False)\<close> leaves Taichi's
  \<^verbatim>\<open>fast_math\<close> switched on. Under it the compiler replaces a product with the
  constant 0 by 0, whatever the other factor is (also a NaN or an infinity), and leaves a
  division by the constant 0 as a division, which follows the sign of that zero.
  \<open>const_mul\<close> is the product of such a constant with a vector and \<open>const_div\<close> the
  quotient of a vector by such a constant; for a constant other than 0 they are the
  product and the quotient of the scalars, component by component. The other constants
  that are multiplied with a field value are \<^verbatim>\<open>-0.5\<close>, \<^verbatim>\<open>0.5\<close>,
  \<^verbatim>\<open>k_LRA\<close> and the exponential of the drag term, none of which is 0, and the
  components of \<^verbatim>\<open>self.dt * ti.Vector([0, 0, -9.8])\<close>, whose other factor is the
  finite \<^verbatim>\<open>w[i]\<close>.
\<close>

definition const_mul :: "real \<Rightarrow> vec \<Rightarrow> vec" where
  "const_mul k u = (if k = 0 then vzero else smul (Fin k) u)"

definition const_div :: "vec \<Rightarrow> real \<Rightarrow> bool \<Rightarrow> vec" where
  "const_div u k negative_zero =
     (if k = 0 \<and> negative_zero then vneg (vdivs u (Fin 0)) else vdivs u (Fin k))"

text \<open>The first loop of the kernel: gravity, drag damping, predicted position.\<close>

definition predict_vertex :: "nat \<Rightarrow> sim \<Rightarrow> sim" where
  "predict_vertex i s =
     (let v1 = vadd (self_v s ! i)
                 (smul (Fin (self_w s ! i)) (smul (Fin (self_dt s)) gravity));
          v2 = smul (Fin (exp (- self_dt s * self_drag_damping s))) v1
      in s\<lparr>self_v := (self_v s)[i := v2],
            self_p := (self_p s)[i := vadd (self_x s ! i) (const_mul (self_dt s) v2)]\<rparr>)"

definition predict_stage :: "sim \<Rightarrow> sim" where
  "predict_stage s = fold predict_vertex [0..<self_vertex_num s] s"

text \<open>
  The body of the tether loops, for one vertex and one attachment point. \<open>tether_dp\<close> is
  the expression assigned to \<^verbatim>\<open>dp\<close>.
\<close>

definition tether_dp :: "real \<Rightarrow> fl \<Rightarrow> vec \<Rightarrow> fl \<Rightarrow> vec" where
  "tether_dp w dist_diff d dst =
     vdivs (smul (fmul (fmul (Fin (- 0.5)) (Fin w)) dist_diff) d) dst"

definition tether_pair :: "nat \<Rightarrow> nat \<Rightarrow> sim \<Rightarrow> sim" where
  "tether_pair vi att s =
     (if self_w s ! vi > eps then
        (let d = vsub (self_p s ! vi) (vfin (self_attach_pos s ! att));
             dist = vnorm d;
             dist_diff = fsub dist (Fin (self_tether_len s ! vi ! att))
         in if fgt (fdiv dist_diff (Fin (self_tether_len s ! vi ! att))) (Fin tether_give)
            then
              (let dp = tether_dp (self_w s ! vi) dist_diff d dist
               in s\<lparr>self_p := (self_p s)[vi := vadd (self_p s ! vi) (smul (Fin k_LRA) dp)]\<rparr>)
            else s)
      else s)"

definition tether_stage :: "sim \<Rightarrow> sim" where
  "tether_stage s =
     fold (\<lambda>vi. fold (tether_pair vi) [0..<self_attach_num s]) [0..<self_vertex_num s] s"

text \<open>
  The body of the link loop in solver iteration \<open>n\<close>; \<open>link_dp0\<close> and \<open>link_dp1\<close> are
  the expressions assigned to \<^verbatim>\<open>dp0\<close> and \<^verbatim>\<open>dp1\<close>. The difference vector
  \<^verbatim>\<open>p_01\<close> is taken once, before either endpoint is written; the second write reads
  \<^verbatim>\<open>p\<close> after the first. The stiffnesses stored by the constructor are
  \<open>k_stretch\<close> and \<open>k_bend\<close>, both below 1, so the base of the power is positive.
\<close>

definition kp_of :: "real \<Rightarrow> nat \<Rightarrow> real" where
  "kp_of k n = 1 - (1 - k) powr (1 / (real n + 1))"

definition link_dp0 :: "real \<Rightarrow> vec \<Rightarrow> real \<Rightarrow> vec" where
  "link_dp0 w p_01 len =
     smul (fmul (fmul (Fin (- 0.5)) (Fin w)) (fsub (vnorm p_01) (Fin len))) (normalized p_01)"

definition link_dp1 :: "real \<Rightarrow> vec \<Rightarrow> real \<Rightarrow> vec" where
  "link_dp1 w p_01 len =
     smul (fmul (fmul (Fin 0.5) (Fin w)) (fsub (vnorm p_01) (Fin len))) (normalized p_01)"

definition link_correct :: "nat \<Rightarrow> nat \<Rightarrow> sim \<Rightarrow> sim" where
  "link_correct n l s =
     (let p0 = fst (self_link s ! l);
          p1 = snd (self_link s ! l);
          p_01 = vsub (self_p s ! p0) (self_p s ! p1);
          kp = kp_of (self_link_k s ! l) n;
          len = self_link_len s ! l;
          s1 = (if self_w s ! p0 > eps then
                  (let dp0 = link_dp0 (self_w s ! p0) p_01 len
                   in s\<lparr>self_p := (self_p s)[p0 := vadd (self_p s ! p0) (smul (Fin kp) dp0)]\<rparr>)
                else s)
      in if self_w s ! p1 > eps then
           (let dp1 = link_dp1 (self_w s ! p1) p_01 len
            in s1\<lparr>self_p := (self_p s1)[p1 := vadd (self_p s1 ! p1) (smul (Fin kp) dp1)]\<rparr>)
         else s1)"

definition link_stage :: "nat \<Rightarrow> sim \<Rightarrow> sim" where
  "link_stage n s = fold (link_correct n) [0..<self_link_num s] s"

text \<open>
  The body of the sphere-collision loop. \<open>collide_dp\<close> is the expression assigned to
  \<^verbatim>\<open>dp\<close>; the inverse mass does not occur in it.
\<close>

definition collide_dp :: "fl \<Rightarrow> fl \<Rightarrow> vec \<Rightarrow> vec" where
  "collide_dp dist_diff dst d = smul (fdiv (fneg dist_diff) dst) d"

definition collide_vertex :: "nat \<Rightarrow> sim \<Rightarrow> sim" where
  "collide_vertex vi s =
     (if self_w s ! vi > eps then
        (let d = vsub (self_p s ! vi) (vfin (self_coll_origin s));
             dist = vnorm d;
             dist_diff = fsub dist (Fin coll_r)
         in if flt dist_diff (Fin 0) then
              (let dp = collide_dp dist_diff dist d
               in s\<lparr>self_p := (self_p s)[vi := vadd (self_p s ! vi) dp]\<rparr>)
            else s)
      else s)"

definition collide_stage :: "sim \<Rightarrow> sim" where
  "collide_stage s = fold collide_vertex [0..<self_vertex_num s] s"

text \<open>One pass of the solver loop, with iteration index \<open>n\<close>.\<close>

definition solver_iteration :: "nat \<Rightarrow> sim \<Rightarrow> sim" where
  "solver_iteration n s =
     collide_stage (link_stage n (if self_enable_LRA s then tether_stage s else s))"

text \<open>The last loop of the kernel: velocity from the displacement, then commit.\<close>

definition finalize_vertex :: "nat \<Rightarrow> sim \<Rightarrow> sim" where
  "finalize_vertex i s =
     (let s1 = s\<lparr>self_v := (self_v s)[i := const_div (vsub (self_p s ! i) (self_x s ! i))
                                              (self_dt s) (self_dt_negative_zero s)]\<rparr>
      in s1\<lparr>self_x := (self_x s1)[i := self_p s1 ! i]\<rparr>)"

definition finalize_stage :: "sim \<Rightarrow> sim" where
  "finalize_stage s = fold finalize_vertex [0..<self_vertex_num s] s"

text \<open>
  \<^verbatim>\<open>substep_cpu\<close> runs the solver loop at run time: \<^verbatim>\<open>range(self.solver_num)\<close>
  fixes the bound \<open>bound\<close> once, and \<open>n\<close> counts up from 0.
\<close>

function solver_loop :: "nat \<Rightarrow> nat \<Rightarrow> sim \<Rightarrow> sim" where
  "solver_loop bound n s =
     (if n < bound then solver_loop bound (n + 1) (solver_iteration n s) else s)"
  by pat_completeness auto
termination
  by (relation "measure (\<lambda>(bound, n, s). bound - n)") auto

declare solver_loop.simps [simp del]

definition substep_cpu :: "sim \<Rightarrow> sim" where
  "substep_cpu s = finalize_stage (solver_loop (self_solver_num s) 0 (predict_stage s))"

text \<open>
  \<^verbatim>\<open>substep_gpu\<close> has the same three parts, but its solver loop runs over
  \<^verbatim>\<open>ti.static(range(self.solver_num))\<close>: the loop is unrolled when the kernel is
  compiled, into one copy of the body for each \<open>n\<close>, in order. The tether, link and
  collision loops of every copy are then outermost loops of the kernel; they are taken
  in program order here, as said above.
\<close>

primrec unrolled :: "nat \<Rightarrow> sim \<Rightarrow> sim" where
  "unrolled 0 s = s"
| "unrolled (Suc k) s = solver_iteration k (unrolled k s)"

definition substep_gpu :: "sim \<Rightarrow> sim" where
  "substep_gpu s = finalize_stage (unrolled (self_solver_num s) (predict_stage s))"


section \<open>The constructor\<close>

text \<open>
  What the constructor reads from Blender: the cloth object with its named vertex groups
  (\<open>vertex_groups\<close>: name and group index), the coordinates of the mesh vertices
  (\<open>verts\<close>), for every vertex the groups it belongs to with its weight (\<open>groups\<close>),
  the edges as pairs of vertex indices and the faces as lists of vertex indices; and the
  settings object \<^verbatim>\<open>sdf_phy\<close>, whose \<open>time_step\<close> is a Python float:
  \<open>time_step_negative_zero\<close> tells the float \<^verbatim>\<open>-0.0\<close> from \<^verbatim>\<open>0.0\<close> when
  \<open>time_step\<close> is 0. A failed lookup of a vertex group by name raises \<^verbatim>\<open>KeyError\<close>,
  an index past the end of a BMesh sequence \<^verbatim>\<open>IndexError\<close>, and the declaration of a
  Taichi field with a dimension of size 0 \<^verbatim>\<open>TaichiRuntimeError\<close>.
\<close>

record cloth =
  vertex_groups :: "(string \<times> nat) list"
  verts :: "rvec list"
  groups :: "(nat \<times> real) list list"
  edges :: "(nat \<times> nat) list"
  faces :: "nat list list"

record sdf_phy =
  time_step :: real
  time_step_negative_zero :: bool
  device :: string
  substep_num :: nat
  solver_num :: nat
  drag_damping :: real
  enable_LRA :: bool
  pin_group :: string
  attach_group :: string
  cloth_obj :: cloth

datatype error = KeyError | IndexError | TaichiRuntimeError

fun for_each :: "('a \<Rightarrow> 's \<Rightarrow> error + 's) \<Rightarrow> 'a list \<Rightarrow> 's \<Rightarrow> error + 's" where
  "for_each f [] s = Inr s"
| "for_each f (a # as) s = (case f a s of Inl e \<Rightarrow> Inl e | Inr s' \<Rightarrow> for_each f as s')"

fun calc_dist :: "rvec \<Rightarrow> rvec \<Rightarrow> real" where
  "calc_dist (a, b, c) (d, e, f) = sqrt ((d - a)\<^sup>2 + (e - b)\<^sup>2 + (f - c)\<^sup>2)"

text \<open>
  Blender's \<^verbatim>\<open>VertexGroup.weight(i)\<close>, the weight of vertex \<open>i\<close> in group \<open>g\<close>; the
  constructor calls it only for a vertex it has just found in the group.
\<close>

definition weight :: "cloth \<Rightarrow> nat \<Rightarrow> nat \<Rightarrow> real" where
  "weight obj g i = (case map_of (groups obj ! i) g of Some wt \<Rightarrow> wt | None \<Rightarrow> 0)"

definition set_face_link :: "cloth \<Rightarrow> nat list \<Rightarrow> nat \<Rightarrow> sim \<Rightarrow> error + sim" where
  "set_face_link obj v j s =
     (if 1 + j < length v then
        Inr (s\<lparr>self_link := (self_link s)[self_link_idx s := (v ! (0 + j), v ! (1 + j))],
               self_link_len := (self_link_len s)[self_link_idx s :=
                  calc_dist (verts obj ! (v ! (0 + j))) (verts obj ! (v ! (1 + j)))],
               self_link_k := (self_link_k s)[self_link_idx s := k_bend],
               self_link_idx := self_link_idx s + 1\<rparr>)
      else Inl IndexError)"

definition set_face :: "cloth \<Rightarrow> nat \<Rightarrow> sim \<Rightarrow> error + sim" where
  "set_face obj i s =
     (let v = faces obj ! i
      in case set_face_link obj v 0 s of
           Inl e \<Rightarrow> Inl e
         | Inr s' \<Rightarrow> set_face_link obj v 1 s')"

definition set_faces :: "cloth \<Rightarrow> sim \<Rightarrow> error + sim" where
  "set_faces obj s = for_each (set_face obj) [0..<self_face_num s] s"

text \<open>
  \<^verbatim>\<open>set_edges\<close> indexes the edge table by the link counter, not by its loop variable;
  \<^verbatim>\<open>e.calc_length()\<close> is the distance between the two vertices of the edge.
\<close>

definition set_edge :: "cloth \<Rightarrow> nat \<Rightarrow> sim \<Rightarrow> error + sim" where
  "set_edge obj i s =
     (if self_link_idx s < length (edges obj) then
        (let e = edges obj ! self_link_idx s
         in Inr (s\<lparr>self_link := (self_link s)[self_link_idx s := (fst e, snd e)],
                    self_link_len := (self_link_len s)[self_link_idx s :=
                       calc_dist (verts obj ! fst e) (verts obj ! snd e)],
                    self_link_k := (self_link_k s)[self_link_idx s := k_stretch],
                    self_link_idx := self_link_idx s + 1\<rparr>))
      else Inl IndexError)"

definition set_edges :: "cloth \<Rightarrow> sim \<Rightarrow> error + sim" where
  "set_edges obj s = for_each (set_edge obj) [0..<self_edge_num s] s"

definition set_attachment :: "cloth \<Rightarrow> nat \<Rightarrow> sim \<Rightarrow> sim" where
  "set_attachment obj i s =
     s\<lparr>self_attach_pos := (self_attach_pos s)[i := verts obj ! (self_attach s ! i)]\<rparr>"

definition set_attachments :: "cloth \<Rightarrow> sim \<Rightarrow> sim" where
  "set_attachments obj s = fold (set_attachment obj) [0..<self_attach_num s] s"

text \<open>
  The vertex loop of \<^verbatim>\<open>initialize\<close>. The tether rest length is the distance from the
  position just stored in \<^verbatim>\<open>x[i]\<close>, the mesh coordinate of the vertex.
\<close>

definition set_tether :: "cloth \<Rightarrow> nat \<Rightarrow> nat \<Rightarrow> sim \<Rightarrow> sim" where
  "set_tether obj i att s =
     s\<lparr>self_tether_len := (self_tether_len s)[i :=
          (self_tether_len s ! i)[att := calc_dist (verts obj ! i) (self_attach_pos s ! att)]]\<rparr>"

definition init_vertex :: "cloth \<Rightarrow> nat \<Rightarrow> nat \<Rightarrow> sim \<Rightarrow> sim" where
  "init_vertex obj pin_index i s =
     (let s1 = s\<lparr>self_x := (self_x s)[i := vfin (verts obj ! i)],
                  self_w := (self_w s)[i := 1]\<rparr>;
          s2 = fold (\<lambda>g t. if fst g = pin_index
                            then t\<lparr>self_w := (self_w t)[i := 1 - weight obj pin_index i]\<rparr>
                            else t) (groups obj ! i) s1
      in if self_enable_LRA s2
         then fold (set_tether obj i) [0..<self_attach_num s2] s2
         else s2)"

definition initialize :: "cloth \<Rightarrow> nat \<Rightarrow> sim \<Rightarrow> error + sim" where
  "initialize obj pin_index s =
     (let s1 = (if self_enable_LRA s then set_attachments obj s else s);
          s2 = fold (init_vertex obj pin_index) [0..<self_vertex_num s1] s1;
          s3 = s2\<lparr>self_link_idx := 0\<rparr>
      in case set_edges obj s3 of
           Inl e \<Rightarrow> Inl e
         | Inr s4 \<Rightarrow> set_faces obj s4)"

text \<open>
  \<^verbatim>\<open>__init__\<close>: look the pin group up by name, copy the settings, allocate the
  zero-filled fields (\<open>allocate\<close>), with long range attachments look the attachment group
  up, collect the attachment vertices and allocate their fields (\<open>allocate_LRA\<close>), and call
  \<^verbatim>\<open>initialize\<close>. The fields over the vertices and over the links are declared
  before the attachment group is looked up, the attachment fields after it. A field
  cannot have size 0: for a mesh without vertices or without links \<open>allocate\<close> fails, and
  for an attachment group without vertices \<open>allocate_LRA\<close> does. Without long range
  attachments the attachment fields do not exist; they are left empty here and never
  read.
\<close>

definition allocate :: "sdf_phy \<Rightarrow> nat \<Rightarrow> error + sim" where
  "allocate phy frame_end =
     (let obj = cloth_obj phy;
          vn = length (verts obj);
          en = length (edges obj);
          fn = length (faces obj);
          ln = en + fn * 2
      in if vn = 0 \<or> ln = 0 then Inl TaichiRuntimeError
         else Inr
         \<lparr>self_dt = time_step phy / 1000,
          self_dt_negative_zero = time_step_negative_zero phy,
          self_device = device phy,
          self_substep_num = substep_num phy,
          self_solver_num = solver_num phy,
          self_drag_damping = drag_damping phy,
          self_enable_LRA = enable_LRA phy,
          self_frame_num = frame_end,
          self_vertex_num = vn,
          self_edge_num = en,
          self_face_num = fn,
          self_link_num = ln,
          self_x = replicate vn vzero,
          self_p = replicate vn vzero,
          self_v = replicate vn vzero,
          self_w = replicate vn 0,
          self_link = replicate ln (0, 0),
          self_link_len = replicate ln 0,
          self_link_k = replicate ln 0,
          self_link_idx = 0,
          self_coll_origin = (0, 0, 0),
          self_attach = [],
          self_attach_num = 0,
          self_attach_pos = [],
          self_tether_len = []\<rparr>)"

definition allocate_LRA :: "cloth \<Rightarrow> nat \<Rightarrow> sim \<Rightarrow> error + sim" where
  "allocate_LRA obj attach_index s =
     (let att = filter (\<lambda>i. attach_index \<in> set (map fst (groups obj ! i)))
                  [0..<length (verts obj)];
          an = length att
      in if an = 0 then Inl TaichiRuntimeError
         else Inr (s\<lparr>self_attach := att,
                     self_attach_num := an,
                     self_attach_pos := replicate an (0, 0, 0),
                     self_tether_len := replicate (self_vertex_num s) (replicate an 0)\<rparr>))"

definition TiClothSimulation :: "sdf_phy \<Rightarrow> nat \<Rightarrow> error + sim" where
  "TiClothSimulation phy frame_end =
     (let obj = cloth_obj phy
      in case map_of (vertex_groups obj) (pin_group phy) of
           None \<Rightarrow> Inl KeyError
         | Some pin_index \<Rightarrow>
             (case allocate phy frame_end of
                Inl e \<Rightarrow> Inl e
              | Inr s \<Rightarrow>
                  if enable_LRA phy then
                    (case map_of (vertex_groups obj) (attach_group phy) of
                       None \<Rightarrow> Inl KeyError
                     | Some attach_index \<Rightarrow>
                         (case allocate_LRA obj attach_index s of
                            Inl e \<Rightarrow> Inl e
                          | Inr s' \<Rightarrow> initialize obj pin_index s'))
                  else initialize obj pin_index s))"

section \<open>The animation loop\<close>

text \<open>
  \<^verbatim>\<open>animate\<close> picks the kernel by the device and registers a generator that, for
  every frame, first yields the mesh update built from the current \<^verbatim>\<open>x\<close> and then runs
  the substeps, reading the collider object's location before each. The location is an
  input from outside: \<open>loc frame step\<close> is what the object's transform holds when that
  substep starts. The result is the list of yielded position arrays, and the state
  the generator ends in.
\<close>

definition substep :: "sim \<Rightarrow> sim" where
  "substep s = (if self_device s = ''CPU'' then substep_cpu s else substep_gpu s)"

definition run_substep :: "(nat \<Rightarrow> nat \<Rightarrow> rvec) \<Rightarrow> nat \<Rightarrow> nat \<Rightarrow> sim \<Rightarrow> sim" where
  "run_substep loc frame step s = substep (s\<lparr>self_coll_origin := loc frame step\<rparr>)"

definition frame_substeps :: "(nat \<Rightarrow> nat \<Rightarrow> rvec) \<Rightarrow> nat \<Rightarrow> sim \<Rightarrow> sim" where
  "frame_substeps loc frame s = fold (run_substep loc frame) [0..<self_substep_num s] s"

fun main :: "(nat \<Rightarrow> nat \<Rightarrow> rvec) \<Rightarrow> nat list \<Rightarrow> sim \<Rightarrow> vec list list \<times> sim" where
  "main loc [] s = ([], s)"
| "main loc (frame # frames) s =
     (let published = self_x s;
          r = main loc frames (frame_substeps loc frame s)
      in (published # fst r, snd r))"

definition animate :: "(nat \<Rightarrow> nat \<Rightarrow> rvec) \<Rightarrow> sim \<Rightarrow> vec list list \<times> sim" where
  "animate loc s = main loc [0..<self_frame_num s] s"

section \<open>States reached by substeps\<close>

text \<open>
  The states the animation loop can be in when it calls the kernel: the state the
  constructor returned, and every state obtained from such a state by setting the
  collider position (to any value, it comes from outside) and running one substep.
\<close>

inductive reaches :: "sim \<Rightarrow> sim \<Rightarrow> bool" where
  start: "reaches s0 s0"
| step: "reaches s0 s \<Longrightarrow> reaches s0 (substep (s\<lparr>self_coll_origin := c\<rparr>))"

section \<open>Notions used in the proofs\<close>

text \<open>
  What a stage leaves alone is stated through the state with the fields it may write
  blanked: \<open>static\<close> blanks \<open>x\<close>, \<open>p\<close> and \<open>v\<close> (all a kernel writes), \<open>no_p\<close> blanks \<open>p\<close> (all
  the solver loop writes), \<open>no_links\<close> and \<open>no_geom\<close> blank what the two halves of the
  constructor write. \<open>sized n\<close> says that the three vector fields have the \<open>n\<close> entries the
  constructor allocated.
\<close>

definition static :: "sim \<Rightarrow> sim" where
  "static s = s\<lparr>self_x := [], self_p := [], self_v := []\<rparr>"

definition no_p :: "sim \<Rightarrow> sim" where
  "no_p s = s\<lparr>self_p := []\<rparr>"

definition no_links :: "sim \<Rightarrow> sim" where
  "no_links s = s\<lparr>self_link := [], self_link_len := [], self_link_k := [], self_link_idx := 0\<rparr>"

definition no_geom :: "sim \<Rightarrow> sim" where
  "no_geom s = s\<lparr>self_x := [], self_w := [], self_tether_len := [], self_attach_pos := []\<rparr>"

definition sized :: "nat \<Rightarrow> sim \<Rightarrow> bool" where
  "sized n s \<longleftrightarrow>
     self_vertex_num s = n \<and> length (self_x s) = n \<and> length (self_v s) = n \<and>
     length (self_p s) = n"

text \<open>
  \<open>skipped i s t\<close>: from \<open>s\<close> to \<open>t\<close> only \<open>p\<close> was written, and not at vertex \<open>i\<close>.
\<close>

definition skipped :: "nat \<Rightarrow> sim \<Rightarrow> sim \<Rightarrow> bool" where
  "skipped i s t \<longleftrightarrow>
     no_p t = no_p s \<and> length (self_p t) = length (self_p s) \<and> self_p t ! i = self_p s ! i"

text \<open>
  The values the predict loop and the finalize loop compute for vertex \<open>i\<close>, the position
  the collision loop computes for a vertex with \<open>w > eps\<close> at predicted position \<open>q\<close>, and
  the loop invariants that say so: after the first \<open>n\<close> passes, the vertices below \<open>n\<close>
  hold the new values and the others the old ones.
\<close>

definition predicted_v :: "sim \<Rightarrow> nat \<Rightarrow> vec" where
  "predicted_v s i =
     smul (Fin (exp (- self_dt s * self_drag_damping s)))
       (vadd (self_v s ! i) (smul (Fin (self_w s ! i)) (smul (Fin (self_dt s)) gravity)))"

definition predicted_p :: "sim \<Rightarrow> nat \<Rightarrow> vec" where
  "predicted_p s i = vadd (self_x s ! i) (const_mul (self_dt s) (predicted_v s i))"

definition predict_inv :: "sim \<Rightarrow> nat \<Rightarrow> sim \<Rightarrow> bool" where
  "predict_inv s n t \<longleftrightarrow>
     static t = static s \<and> self_x t = self_x s \<and>
     length (self_v t) = length (self_v s) \<and> length (self_p t) = length (self_p s) \<and>
     (\<forall>j. n \<le> j \<longrightarrow> self_v t ! j = self_v s ! j \<and> self_p t ! j = self_p s ! j) \<and>
     (\<forall>j. j < n \<longrightarrow> j < length (self_v s) \<longrightarrow> self_v t ! j = predicted_v s j) \<and>
     (\<forall>j. j < n \<longrightarrow> j < length (self_p s) \<longrightarrow> self_p t ! j = predicted_p s j)"

definition final_v :: "sim \<Rightarrow> nat \<Rightarrow> vec" where
  "final_v s i =
     const_div (vsub (self_p s ! i) (self_x s ! i)) (self_dt s) (self_dt_negative_zero s)"

definition finalize_inv :: "sim \<Rightarrow> nat \<Rightarrow> sim \<Rightarrow> bool" where
  "finalize_inv s n t \<longleftrightarrow>
     static t = static s \<and> self_p t = self_p s \<and>
     length (self_v t) = length (self_v s) \<and> length (self_x t) = length (self_x s) \<and>
     (\<forall>j. n \<le> j \<longrightarrow> self_v t ! j = self_v s ! j \<and> self_x t ! j = self_x s ! j) \<and>
     (\<forall>j. j < n \<longrightarrow> j < length (self_v s) \<longrightarrow> self_v t ! j = final_v s j) \<and>
     (\<forall>j. j < n \<longrightarrow> j < length (self_x s) \<longrightarrow> self_x t ! j = self_p s ! j)"

definition collide_point :: "rvec \<Rightarrow> vec \<Rightarrow> vec" where
  "collide_point c q =
     (let d = vsub q (vfin c);
          dst = vnorm d;
          dist_diff = fsub dst (Fin coll_r)
      in if flt dist_diff (Fin 0) then vadd q (collide_dp dist_diff dst d) else q)"

definition collide_inv :: "sim \<Rightarrow> nat \<Rightarrow> sim \<Rightarrow> bool" where
  "collide_inv s n t \<longleftrightarrow>
     no_p t = no_p s \<and> length (self_p t) = length (self_p s) \<and>
     (\<forall>j. n \<le> j \<longrightarrow> self_p t ! j = self_p s ! j) \<and>
     (\<forall>j. j < n \<longrightarrow> j < length (self_p s) \<longrightarrow>
        self_p t ! j = (if eps < self_w s ! j
                        then collide_point (self_coll_origin s) (self_p s ! j)
                        else self_p s ! j))"

text \<open>
  The displacements a correction applies: the difference vector of a link and the two
  increments \<^verbatim>\<open>kp * dp0\<close> and \<^verbatim>\<open>kp * dp1\<close> added to its endpoints; the change of the
  predicted position of vertex \<open>vi\<close> by its pass of the collision loop.
\<close>

definition link_p_01 :: "nat \<Rightarrow> sim \<Rightarrow> vec" where
  "link_p_01 l s = vsub (self_p s ! fst (self_link s ! l)) (self_p s ! snd (self_link s ! l))"

definition link_disp0 :: "nat \<Rightarrow> nat \<Rightarrow> sim \<Rightarrow> vec" where
  "link_disp0 n l s =
     smul (Fin (kp_of (self_link_k s ! l) n))
       (link_dp0 (self_w s ! fst (self_link s ! l)) (link_p_01 l s) (self_link_len s ! l))"

definition link_disp1 :: "nat \<Rightarrow> nat \<Rightarrow> sim \<Rightarrow> vec" where
  "link_disp1 n l s =
     smul (Fin (kp_of (self_link_k s ! l) n))
       (link_dp1 (self_w s ! snd (self_link s ! l)) (link_p_01 l s) (self_link_len s ! l))"

definition collide_disp :: "nat \<Rightarrow> sim \<Rightarrow> vec" where
  "collide_disp vi s = vsub (self_p (collide_vertex vi s) ! vi) (self_p s ! vi)"

text \<open>
  The tether and the link displacement for an inverse mass of 1: the expressions of the
  kernel with 1 in the place of \<^verbatim>\<open>w\<close>, the tether one being zero when the stretch
  test fails. None of them reads \<open>self_w\<close>.
\<close>

definition tether_unit :: "nat \<Rightarrow> nat \<Rightarrow> sim \<Rightarrow> vec" where
  "tether_unit vi att s =
     (let d = vsub (self_p s ! vi) (vfin (self_attach_pos s ! att));
          dst = vnorm d;
          dist_diff = fsub dst (Fin (self_tether_len s ! vi ! att))
      in if fgt (fdiv dist_diff (Fin (self_tether_len s ! vi ! att))) (Fin tether_give)
         then smul (Fin k_LRA) (tether_dp 1 dist_diff d dst)
         else vzero)"

definition link_unit0 :: "nat \<Rightarrow> nat \<Rightarrow> sim \<Rightarrow> vec" where
  "link_unit0 n l s =
     smul (Fin (kp_of (self_link_k s ! l) n))
       (link_dp0 1 (link_p_01 l s) (self_link_len s ! l))"

definition link_unit1 :: "nat \<Rightarrow> nat \<Rightarrow> sim \<Rightarrow> vec" where
  "link_unit1 n l s =
     smul (Fin (kp_of (self_link_k s ! l) n))
       (link_dp1 1 (link_p_01 l s) (self_link_len s ! l))"

text \<open>
  \<open>pinned i c s\<close>: vertex \<open>i\<close> has inverse mass 0 and rests at the finite position \<open>c\<close>,
  with velocity 0 unless the time step is 0 (then the velocity is whatever the division
  by the time step has left). \<open>face_inv\<close> is the loop invariant of
  \<^verbatim>\<open>set_faces\<close>: after \<open>n\<close> faces the counter has advanced by \<open>2 * n\<close>, the earlier links
  are untouched and the two links of each face done are in place.
\<close>

definition pinned :: "nat \<Rightarrow> rvec \<Rightarrow> sim \<Rightarrow> bool" where
  "pinned i c s \<longleftrightarrow>
     i < self_vertex_num s \<and> i < length (self_x s) \<and> i < length (self_v s) \<and>
     i < length (self_p s) \<and> self_w s ! i = 0 \<and> self_x s ! i = vfin c \<and>
     (self_dt s = 0 \<or> self_v s ! i = vzero)"

definition face_inv :: "cloth \<Rightarrow> sim \<Rightarrow> nat \<Rightarrow> sim \<Rightarrow> bool" where
  "face_inv obj s n t \<longleftrightarrow>
     no_links t = no_links s \<and>
     self_link_idx t = self_link_idx s + 2 * n \<and>
     length (self_link t) = length (self_link s) \<and>
     length (self_link_len t) = length (self_link_len s) \<and>
     length (self_link_k t) = length (self_link_k s) \<and>
     (\<forall>k. k < self_link_idx s \<longrightarrow>
        self_link t ! k = self_link s ! k \<and> self_link_len t ! k = self_link_len s ! k \<and>
        self_link_k t ! k = self_link_k s ! k) \<and>
     (\<forall>f j. f < n \<longrightarrow> j < 2 \<longrightarrow>
        self_link t ! (self_link_idx s + 2 * f + j)
          = (faces obj ! f ! j, faces obj ! f ! (j + 1)) \<and>
        self_link_len t ! (self_link_idx s + 2 * f + j)
          = calc_dist (verts obj ! (faces obj ! f ! j)) (verts obj ! (faces obj ! f ! (j + 1))) \<and>
        self_link_k t ! (self_link_idx s + 2 * f + j) = k_bend)"

section \<open>Example inputs\<close>

text \<open>
  States and meshes on which the theorems are exercised: two vertices joined by one
  link, with chosen inverse masses and predicted positions; two vertices with long range
  attachments, vertex 0 being the attachment point; a triangle whose vertex 0 is fully
  pinned, with the settings \<open>demo_phy\<close> and the state \<open>demo_sim\<close> the constructor returns
  for it; a mesh of two coincident vertices joined by an edge, and a mesh of two vertices
  at heights 5 and 8 joined by an edge, each with its settings and constructed state;
  and a collider that stays at \<open>c\<close>.
\<close>

definition two_vertex_sim :: "real \<Rightarrow> real \<Rightarrow> vec \<Rightarrow> vec \<Rightarrow> sim" where
  "two_vertex_sim w0 w1 p0 p1 =
     \<lparr>self_dt = 1 / 100, self_dt_negative_zero = False,
      self_device = ''CPU'', self_substep_num = 2, self_solver_num = 1,
      self_drag_damping = 0, self_enable_LRA = False, self_frame_num = 1,
      self_vertex_num = 2, self_edge_num = 1, self_face_num = 0, self_link_num = 1,
      self_x = [p0, p1], self_p = [p0, p1], self_v = [vzero, vzero], self_w = [w0, w1],
      self_link = [(0, 1)], self_link_len = [1], self_link_k = [k_stretch],
      self_link_idx = 1, self_coll_origin = (0, 0, 0), self_attach = [],
      self_attach_num = 0, self_attach_pos = [], self_tether_len = []\<rparr>"

definition tether_sim :: "vec \<Rightarrow> vec \<Rightarrow> sim" where
  "tether_sim p0 p1 =
     \<lparr>self_dt = 1 / 100, self_dt_negative_zero = False,
      self_device = ''CPU'', self_substep_num = 1, self_solver_num = 1,
      self_drag_damping = 0, self_enable_LRA = True, self_frame_num = 1,
      self_vertex_num = 2, self_edge_num = 1, self_face_num = 0, self_link_num = 1,
      self_x = [p0, p1], self_p = [p0, p1], self_v = [vzero, vzero], self_w = [1, 1],
      self_link = [(0, 1)], self_link_len = [1], self_link_k = [k_stretch],
      self_link_idx = 1, self_coll_origin = (0, 0, 9), self_attach = [0],
      self_attach_num = 1, self_attach_pos = [(0, 0, 0)], self_tether_len = [[0], [1]]\<rparr>"

definition triangle_cloth :: cloth where
  "triangle_cloth =
     \<lparr>vertex_groups = [(''pin'', 0)],
      verts = [(0, 0, 0), (1, 0, 0), (0, 1, 0)],
      groups = [[(0, 1)], [], []],
      edges = [(0, 1), (1, 2), (2, 0)],
      faces = [[0, 1, 2]]\<rparr>"

definition demo_phy :: "real \<Rightarrow> nat \<Rightarrow> sdf_phy" where
  "demo_phy ts n =
     \<lparr>time_step = ts, time_step_negative_zero = False, device = ''CPU'', substep_num = n, solver_num = 1,
      drag_damping = 0, enable_LRA = False, pin_group = ''pin'', attach_group = ''attach'',
      cloth_obj = triangle_cloth\<rparr>"

definition demo_sim :: "real \<Rightarrow> nat \<Rightarrow> nat \<Rightarrow> sim" where
  "demo_sim ts n fe =
     \<lparr>self_dt = ts / 1000, self_dt_negative_zero = False,
      self_device = ''CPU'', self_substep_num = n, self_solver_num = 1,
      self_drag_damping = 0, self_enable_LRA = False, self_frame_num = fe,
      self_vertex_num = 3, self_edge_num = 3, self_face_num = 1, self_link_num = 5,
      self_x = [(Fin 0, Fin 0, Fin 0), (Fin 1, Fin 0, Fin 0), (Fin 0, Fin 1, Fin 0)],
      self_p = [vzero, vzero, vzero], self_v = [vzero, vzero, vzero], self_w = [0, 1, 1],
      self_link = [(0, 1), (1, 2), (2, 0), (0, 1), (1, 2)],
      self_link_len = [1, sqrt 2, 1, 1, sqrt 2],
      self_link_k = [k_stretch, k_stretch, k_stretch, k_bend, k_bend],
      self_link_idx = 5, self_coll_origin = (0, 0, 0), self_attach = [],
      self_attach_num = 0, self_attach_pos = [], self_tether_len = []\<rparr>"

definition seam_cloth :: cloth where
  "seam_cloth =
     \<lparr>vertex_groups = [(''pin'', 0)],
      verts = [(0, 0, 5), (0, 0, 5)],
      groups = [[], []],
      edges = [(0, 1)],
      faces = []\<rparr>"

definition seam_phy :: sdf_phy where
  "seam_phy =
     \<lparr>time_step = 1000, time_step_negative_zero = False, device = ''GPU'', substep_num = 1, solver_num = 1,
      drag_damping = 0, enable_LRA = False, pin_group = ''pin'', attach_group = ''attach'',
      cloth_obj = seam_cloth\<rparr>"

definition seam_sim :: sim where
  "seam_sim =
     \<lparr>self_dt = 1, self_dt_negative_zero = False,
      self_device = ''GPU'', self_substep_num = 1, self_solver_num = 1,
      self_drag_damping = 0, self_enable_LRA = False, self_frame_num = 2,
      self_vertex_num = 2, self_edge_num = 1, self_face_num = 0, self_link_num = 1,
      self_x = [(Fin 0, Fin 0, Fin 5), (Fin 0, Fin 0, Fin 5)],
      self_p = [vzero, vzero], self_v = [vzero, vzero], self_w = [1, 1],
      self_link = [(0, 1)], self_link_len = [0], self_link_k = [k_stretch],
      self_link_idx = 1, self_coll_origin = (0, 0, 0), self_attach = [],
      self_attach_num = 0, self_attach_pos = [], self_tether_len = []\<rparr>"

definition rod_cloth :: cloth where
  "rod_cloth =
     \<lparr>vertex_groups = [(''pin'', 0)],
      verts = [(0, 0, 5), (0, 0, 8)],
      groups = [[], []],
      edges = [(0, 1)],
      faces = []\<rparr>"

definition rod_phy :: sdf_phy where
  "rod_phy =
     \<lparr>time_step = 1000, time_step_negative_zero = False, device = ''CPU'', substep_num = 1,
      solver_num = 1, drag_damping = 0, enable_LRA = False, pin_group = ''pin'',
      attach_group = ''attach'', cloth_obj = rod_cloth\<rparr>"

definition rod_sim :: sim where
  "rod_sim =
     \<lparr>self_dt = 1, self_dt_negative_zero = False,
      self_device = ''CPU'', self_substep_num = 1, self_solver_num = 1,
      self_drag_damping = 0, self_enable_LRA = False, self_frame_num = 2,
      self_vertex_num = 2, self_edge_num = 1, self_face_num = 0, self_link_num = 1,
      self_x = [(Fin 0, Fin 0, Fin 5), (Fin 0, Fin 0, Fin 8)],
      self_p = [vzero, vzero], self_v = [vzero, vzero], self_w = [1, 1],
      self_link = [(0, 1)], self_link_len = [3], self_link_k = [k_stretch],
      self_link_idx = 1, self_coll_origin = (0, 0, 0), self_attach = [],
      self_attach_num = 0, self_attach_pos = [], self_tether_len = []\<rparr>"

definition collider_at :: "rvec \<Rightarrow> nat \<Rightarrow> nat \<Rightarrow> rvec" where
  "collider_at c frame step = c"

section \<open>Frame properties of the kernel\<close>

lemma fold_inv: "P s \<Longrightarrow> (\<And>a t. P t \<Longrightarrow> P (f a t)) \<Longrightarrow> P (fold f as s)"
  by (induction as arbitrary: s) simp_all

lemma no_p_fields:
  assumes "no_p s = no_p t"
  shows "self_w s = self_w t" "self_x s = self_x t" "self_v s = self_v t"
    "self_vertex_num s = self_vertex_num t" "self_link_num s = self_link_num t"
    "self_attach_num s = self_attach_num t" "self_enable_LRA s = self_enable_LRA t"
    "self_dt s = self_dt t" "self_solver_num s = self_solver_num t"
    "self_coll_origin s = self_coll_origin t" "self_link s = self_link t"
    "self_substep_num s = self_substep_num t" "self_device s = self_device t"
    "self_drag_damping s = self_drag_damping t"
    "self_dt_negative_zero s = self_dt_negative_zero t"
proof -
  have "self_w (no_p s) = self_w (no_p t)" "self_x (no_p s) = self_x (no_p t)"
    "self_v (no_p s) = self_v (no_p t)"
    "self_vertex_num (no_p s) = self_vertex_num (no_p t)"
    "self_link_num (no_p s) = self_link_num (no_p t)"
    "self_attach_num (no_p s) = self_attach_num (no_p t)"
    "self_enable_LRA (no_p s) = self_enable_LRA (no_p t)"
    "self_dt (no_p s) = self_dt (no_p t)"
    "self_solver_num (no_p s) = self_solver_num (no_p t)"
    "self_coll_origin (no_p s) = self_coll_origin (no_p t)"
    "self_link (no_p s) = self_link (no_p t)"
    "self_substep_num (no_p s) = self_substep_num (no_p t)"
    "self_device (no_p s) = self_device (no_p t)"
    "self_drag_damping (no_p s) = self_drag_damping (no_p t)"
    "self_dt_negative_zero (no_p s) = self_dt_negative_zero (no_p t)"
    using assms by simp_all
  then show "self_w s = self_w t" "self_x s = self_x t" "self_v s = self_v t"
    "self_vertex_num s = self_vertex_num t" "self_link_num s = self_link_num t"
    "self_attach_num s = self_attach_num t" "self_enable_LRA s = self_enable_LRA t"
    "self_dt s = self_dt t" "self_solver_num s = self_solver_num t"
    "self_coll_origin s = self_coll_origin t" "self_link s = self_link t"
    "self_substep_num s = self_substep_num t" "self_device s = self_device t"
    "self_drag_damping s = self_drag_damping t"
    "self_dt_negative_zero s = self_dt_negative_zero t"
    by (simp_all add: no_p_def)
qed

lemma no_p_tether_pair: "no_p (tether_pair vi att s) = no_p s"
  by (simp add: no_p_def tether_pair_def Let_def)

lemma no_p_link_correct: "no_p (link_correct n l s) = no_p s"
  by (simp add: no_p_def link_correct_def Let_def)

lemma no_p_collide_vertex: "no_p (collide_vertex vi s) = no_p s"
  by (simp add: no_p_def collide_vertex_def Let_def)

lemma len_p_tether_pair: "length (self_p (tether_pair vi att s)) = length (self_p s)"
  by (simp add: tether_pair_def Let_def)

lemma len_p_link_correct: "length (self_p (link_correct n l s)) = length (self_p s)"
  by (simp add: link_correct_def Let_def)

lemma len_p_collide_vertex: "length (self_p (collide_vertex vi s)) = length (self_p s)"
  by (simp add: collide_vertex_def Let_def)

text \<open>A vertex whose inverse mass is not above \<open>eps\<close> is skipped by each correction.\<close>

lemma tether_pair_skips:
  "\<not> eps < self_w s ! i \<Longrightarrow> self_p (tether_pair vi att s) ! i = self_p s ! i"
  by (cases "vi = i") (simp_all add: tether_pair_def Let_def)

lemma link_correct_skips:
  "\<not> eps < self_w s ! i \<Longrightarrow> self_p (link_correct n l s) ! i = self_p s ! i"
  by (cases "fst (self_link s ! l) = i"; cases "snd (self_link s ! l) = i")
    (simp_all add: link_correct_def Let_def)

lemma collide_vertex_skips:
  "\<not> eps < self_w s ! i \<Longrightarrow> self_p (collide_vertex vi s) ! i = self_p s ! i"
  by (cases "vi = i") (simp_all add: collide_vertex_def Let_def)

lemma skipped_refl: "skipped i s s"
  by (simp add: skipped_def)

lemma skipped_trans: "skipped i s t \<Longrightarrow> skipped i t u \<Longrightarrow> skipped i s u"
  by (simp add: skipped_def)

lemma skipped_w: "skipped i s t \<Longrightarrow> self_w t = self_w s"
  using no_p_fields(1) [of t s] by (simp add: skipped_def)

lemma skipped_tether_pair:
  assumes "\<not> eps < self_w s ! i" and "skipped i s t"
  shows "skipped i s (tether_pair vi att t)"
proof -
  have "\<not> eps < self_w t ! i"
    using assms(1) skipped_w [OF assms(2)] by simp
  then have "skipped i t (tether_pair vi att t)"
    by (simp add: skipped_def no_p_tether_pair len_p_tether_pair tether_pair_skips)
  with assms(2) show ?thesis
    by (rule skipped_trans)
qed

lemma skipped_link_correct:
  assumes "\<not> eps < self_w s ! i" and "skipped i s t"
  shows "skipped i s (link_correct n l t)"
proof -
  have "\<not> eps < self_w t ! i"
    using assms(1) skipped_w [OF assms(2)] by simp
  then have "skipped i t (link_correct n l t)"
    by (simp add: skipped_def no_p_link_correct len_p_link_correct link_correct_skips)
  with assms(2) show ?thesis
    by (rule skipped_trans)
qed

lemma skipped_collide_vertex:
  assumes "\<not> eps < self_w s ! i" and "skipped i s t"
  shows "skipped i s (collide_vertex vi t)"
proof -
  have "\<not> eps < self_w t ! i"
    using assms(1) skipped_w [OF assms(2)] by simp
  then have "skipped i t (collide_vertex vi t)"
    by (simp add: skipped_def no_p_collide_vertex len_p_collide_vertex collide_vertex_skips)
  with assms(2) show ?thesis
    by (rule skipped_trans)
qed

lemma skipped_tether_stage:
  assumes "\<not> eps < self_w s ! i"
  shows "skipped i s (tether_stage s)"
  unfolding tether_stage_def
proof (rule fold_inv [where P = "skipped i s"])
  show "skipped i s s" by (rule skipped_refl)
next
  fix vi t
  assume t: "skipped i s t"
  show "skipped i s (fold (tether_pair vi) [0..<self_attach_num s] t)"
  proof (rule fold_inv [where P = "skipped i s"])
    show "skipped i s t" by (rule t)
  next
    fix att u
    assume "skipped i s u"
    with assms show "skipped i s (tether_pair vi att u)"
      by (rule skipped_tether_pair)
  qed
qed

lemma skipped_link_stage:
  assumes "\<not> eps < self_w s ! i"
  shows "skipped i s (link_stage n s)"
  unfolding link_stage_def
proof (rule fold_inv [where P = "skipped i s"])
  show "skipped i s s" by (rule skipped_refl)
next
  fix l t
  assume "skipped i s t"
  with assms show "skipped i s (link_correct n l t)"
    by (rule skipped_link_correct)
qed

lemma skipped_collide_stage:
  assumes "\<not> eps < self_w s ! i"
  shows "skipped i s (collide_stage s)"
  unfolding collide_stage_def
proof (rule fold_inv [where P = "skipped i s"])
  show "skipped i s s" by (rule skipped_refl)
next
  fix vi t
  assume "skipped i s t"
  with assms show "skipped i s (collide_vertex vi t)"
    by (rule skipped_collide_vertex)
qed

lemma skipped_solver_iteration:
  assumes "\<not> eps < self_w s ! i"
  shows "skipped i s (solver_iteration n s)"
proof -
  define s1 where "s1 = (if self_enable_LRA s then tether_stage s else s)"
  have 1: "skipped i s s1"
    using assms by (simp add: s1_def skipped_refl skipped_tether_stage)
  have w1: "\<not> eps < self_w s1 ! i"
    using assms skipped_w [OF 1] by simp
  have 2: "skipped i s1 (link_stage n s1)"
    using w1 by (rule skipped_link_stage)
  have w2: "\<not> eps < self_w (link_stage n s1) ! i"
    using w1 skipped_w [OF 2] by simp
  have 3: "skipped i (link_stage n s1) (collide_stage (link_stage n s1))"
    using w2 by (rule skipped_collide_stage)
  have "skipped i s (collide_stage (link_stage n s1))"
    by (rule skipped_trans [OF skipped_trans [OF 1 2] 3])
  then show ?thesis
    by (simp add: solver_iteration_def s1_def)
qed

lemma skipped_fold_solver_iteration:
  assumes "\<not> eps < self_w s ! i"
  shows "skipped i s (fold solver_iteration ns s)"
proof (rule fold_inv [where P = "skipped i s"])
  show "skipped i s s" by (rule skipped_refl)
next
  fix n t
  assume t: "skipped i s t"
  have "\<not> eps < self_w t ! i"
    using assms skipped_w [OF t] by simp
  then have "skipped i t (solver_iteration n t)"
    by (rule skipped_solver_iteration)
  with t show "skipped i s (solver_iteration n t)"
    by (rule skipped_trans)
qed

section \<open>The solver loop\<close>

lemma solver_loop_fold: "solver_loop bound n s = fold solver_iteration [n..<bound] s"
proof (induction bound n s rule: solver_loop.induct)
  case (1 bound n s)
  show ?case
  proof (cases "n < bound")
    case True
    then have "[n..<bound] = n # [n + 1..<bound]"
      by (simp add: upt_conv_Cons)
    moreover have "solver_loop bound n s = solver_loop bound (n + 1) (solver_iteration n s)"
      using True by (subst solver_loop.simps) simp
    ultimately show ?thesis
      using True "1.IH" by simp
  next
    case False
    then show ?thesis
      by (subst solver_loop.simps) simp
  qed
qed

lemma unrolled_fold: "unrolled k s = fold solver_iteration [0..<k] s"
  by (induction k) simp_all

section \<open>The predict and finalize loops\<close>

lemma static_fields:
  assumes "static s = static t"
  shows "self_w s = self_w t" "self_dt s = self_dt t"
    "self_drag_damping s = self_drag_damping t" "self_vertex_num s = self_vertex_num t"
    "self_solver_num s = self_solver_num t" "self_enable_LRA s = self_enable_LRA t"
    "self_substep_num s = self_substep_num t" "self_device s = self_device t"
    "self_coll_origin s = self_coll_origin t"
    "self_dt_negative_zero s = self_dt_negative_zero t"
proof -
  have "self_w (static s) = self_w (static t)" "self_dt (static s) = self_dt (static t)"
    "self_drag_damping (static s) = self_drag_damping (static t)"
    "self_vertex_num (static s) = self_vertex_num (static t)"
    "self_solver_num (static s) = self_solver_num (static t)"
    "self_enable_LRA (static s) = self_enable_LRA (static t)"
    "self_substep_num (static s) = self_substep_num (static t)"
    "self_device (static s) = self_device (static t)"
    "self_coll_origin (static s) = self_coll_origin (static t)"
    "self_dt_negative_zero (static s) = self_dt_negative_zero (static t)"
    using assms by simp_all
  then show "self_w s = self_w t" "self_dt s = self_dt t"
    "self_drag_damping s = self_drag_damping t" "self_vertex_num s = self_vertex_num t"
    "self_solver_num s = self_solver_num t" "self_enable_LRA s = self_enable_LRA t"
    "self_substep_num s = self_substep_num t" "self_device s = self_device t"
    "self_coll_origin s = self_coll_origin t"
    "self_dt_negative_zero s = self_dt_negative_zero t"
    by (simp_all add: static_def)
qed

lemma static_predict_vertex: "static (predict_vertex i s) = static s"
  by (simp add: static_def predict_vertex_def Let_def)

lemma static_finalize_vertex: "static (finalize_vertex vi s) = static s"
  by (simp add: static_def finalize_vertex_def Let_def)

lemma static_no_p: "no_p s = no_p t \<Longrightarrow> static s = static t"
proof -
  assume "no_p s = no_p t"
  then have "static (no_p s) = static (no_p t)" by simp
  then show ?thesis by (simp add: static_def no_p_def)
qed

lemma predict_inv_step:
  assumes "predict_inv s n t"
  shows "predict_inv s (Suc n) (predict_vertex n t)"
proof -
  from assms have st: "static t = static s" and x: "self_x t = self_x s"
    and lv: "length (self_v t) = length (self_v s)"
    and lp: "length (self_p t) = length (self_p s)"
    and hi: "\<And>j. n \<le> j \<Longrightarrow> self_v t ! j = self_v s ! j \<and> self_p t ! j = self_p s ! j"
    and lov: "\<And>j. j < n \<Longrightarrow> j < length (self_v s) \<Longrightarrow> self_v t ! j = predicted_v s j"
    and lop: "\<And>j. j < n \<Longrightarrow> j < length (self_p s) \<Longrightarrow> self_p t ! j = predicted_p s j"
    by (simp_all add: predict_inv_def)
  note f = static_fields [OF st]
  let ?u = "predict_vertex n t"
  have vn: "self_v t ! n = self_v s ! n"
    using hi [of n] by simp
  have uv: "self_v ?u = (self_v t)[n := predicted_v s n]"
    by (simp add: predict_vertex_def Let_def predicted_v_def f vn)
  have up: "self_p ?u = (self_p t)[n := predicted_p s n]"
    by (simp add: predict_vertex_def Let_def predicted_p_def predicted_v_def f vn x)
  have ux: "self_x ?u = self_x s"
    by (simp add: predict_vertex_def Let_def x)
  have 1: "static ?u = static s"
    by (simp add: static_predict_vertex st)
  have 2: "\<And>j. Suc n \<le> j \<Longrightarrow> self_v ?u ! j = self_v s ! j \<and> self_p ?u ! j = self_p s ! j"
    using hi by (simp add: uv up)
  have 3: "\<And>j. j < Suc n \<Longrightarrow> j < length (self_v s) \<Longrightarrow> self_v ?u ! j = predicted_v s j"
    using lov lv by (auto simp: uv nth_list_update less_Suc_eq)
  have 4: "\<And>j. j < Suc n \<Longrightarrow> j < length (self_p s) \<Longrightarrow> self_p ?u ! j = predicted_p s j"
    using lop lp by (auto simp: up nth_list_update less_Suc_eq)
  show ?thesis
    unfolding predict_inv_def using 1 2 3 4 ux lv lp by (simp add: uv up)
qed

lemma predict_inv_fold: "predict_inv s n (fold predict_vertex [0..<n] s)"
proof (induction n)
  case 0
  show ?case by (simp add: predict_inv_def)
next
  case (Suc n)
  then show ?case by (simp add: predict_inv_step)
qed

lemma predict_stage_inv: "predict_inv s (self_vertex_num s) (predict_stage s)"
  by (simp add: predict_stage_def predict_inv_fold)

lemma finalize_inv_step:
  assumes "finalize_inv s n t"
  shows "finalize_inv s (Suc n) (finalize_vertex n t)"
proof -
  from assms have st: "static t = static s" and p: "self_p t = self_p s"
    and lv: "length (self_v t) = length (self_v s)"
    and lx: "length (self_x t) = length (self_x s)"
    and hi: "\<And>j. n \<le> j \<Longrightarrow> self_v t ! j = self_v s ! j \<and> self_x t ! j = self_x s ! j"
    and lov: "\<And>j. j < n \<Longrightarrow> j < length (self_v s) \<Longrightarrow> self_v t ! j = final_v s j"
    and lox: "\<And>j. j < n \<Longrightarrow> j < length (self_x s) \<Longrightarrow> self_x t ! j = self_p s ! j"
    by (simp_all add: finalize_inv_def)
  note f = static_fields [OF st]
  let ?u = "finalize_vertex n t"
  have xn: "self_x t ! n = self_x s ! n"
    using hi [of n] by simp
  have uv: "self_v ?u = (self_v t)[n := final_v s n]"
    by (simp add: finalize_vertex_def Let_def final_v_def f xn p)
  have ux: "self_x ?u = (self_x t)[n := self_p s ! n]"
    by (simp add: finalize_vertex_def Let_def p)
  have up: "self_p ?u = self_p s"
    by (simp add: finalize_vertex_def Let_def p)
  have 1: "static ?u = static s"
    by (simp add: static_finalize_vertex st)
  have 2: "\<And>j. Suc n \<le> j \<Longrightarrow> self_v ?u ! j = self_v s ! j \<and> self_x ?u ! j = self_x s ! j"
    using hi by (simp add: uv ux)
  have 3: "\<And>j. j < Suc n \<Longrightarrow> j < length (self_v s) \<Longrightarrow> self_v ?u ! j = final_v s j"
    using lov lv by (auto simp: uv nth_list_update less_Suc_eq)
  have 4: "\<And>j. j < Suc n \<Longrightarrow> j < length (self_x s) \<Longrightarrow> self_x ?u ! j = self_p s ! j"
    using lox lx by (auto simp: ux nth_list_update less_Suc_eq)
  show ?thesis
    unfolding finalize_inv_def using 1 2 3 4 up lv lx by (simp add: uv ux)
qed

lemma finalize_inv_fold: "finalize_inv s n (fold finalize_vertex [0..<n] s)"
proof (induction n)
  case 0
  show ?case by (simp add: finalize_inv_def)
next
  case (Suc n)
  then show ?case by (simp add: finalize_inv_step)
qed

lemma finalize_stage_inv: "finalize_inv s (self_vertex_num s) (finalize_stage s)"
  by (simp add: finalize_stage_def finalize_inv_fold)

lemma predict_stage_nth:
  assumes "i < self_vertex_num s"
  shows "i < length (self_v s) \<Longrightarrow> self_v (predict_stage s) ! i = predicted_v s i"
    and "i < length (self_p s) \<Longrightarrow> self_p (predict_stage s) ! i = predicted_p s i"
  using predict_stage_inv [of s] assms by (simp_all add: predict_inv_def)

lemma predict_stage_frame:
  "static (predict_stage s) = static s" "self_x (predict_stage s) = self_x s"
  "length (self_v (predict_stage s)) = length (self_v s)"
  "length (self_p (predict_stage s)) = length (self_p s)"
  using predict_stage_inv [of s] by (simp_all add: predict_inv_def)

lemma finalize_stage_nth:
  assumes "i < self_vertex_num s"
  shows "i < length (self_v s) \<Longrightarrow> self_v (finalize_stage s) ! i = final_v s i"
    and "i < length (self_x s) \<Longrightarrow> self_x (finalize_stage s) ! i = self_p s ! i"
  using finalize_stage_inv [of s] assms by (simp_all add: finalize_inv_def)

lemma finalize_stage_frame:
  "static (finalize_stage s) = static s" "self_p (finalize_stage s) = self_p s"
  "length (self_v (finalize_stage s)) = length (self_v s)"
  "length (self_x (finalize_stage s)) = length (self_x s)"
  using finalize_stage_inv [of s] by (simp_all add: finalize_inv_def)

section \<open>Vertices with small inverse mass\<close>

text \<open>The solver loop as a whole writes nothing but \<open>p\<close>.\<close>

lemma no_p_tether_stage: "no_p (tether_stage s) = no_p s"
  unfolding tether_stage_def
proof (rule fold_inv [where P = "\<lambda>t. no_p t = no_p s"])
  show "no_p s = no_p s" by simp
next
  fix vi t
  assume t: "no_p t = no_p s"
  show "no_p (fold (tether_pair vi) [0..<self_attach_num s] t) = no_p s"
    by (rule fold_inv [where P = "\<lambda>t. no_p t = no_p s"]) (simp_all add: t no_p_tether_pair)
qed

lemma no_p_link_stage: "no_p (link_stage n s) = no_p s"
  unfolding link_stage_def
  by (rule fold_inv [where P = "\<lambda>t. no_p t = no_p s"]) (simp_all add: no_p_link_correct)

lemma no_p_collide_stage: "no_p (collide_stage s) = no_p s"
  unfolding collide_stage_def
  by (rule fold_inv [where P = "\<lambda>t. no_p t = no_p s"]) (simp_all add: no_p_collide_vertex)

lemma no_p_solver_iteration: "no_p (solver_iteration n s) = no_p s"
  by (simp add: solver_iteration_def no_p_collide_stage no_p_link_stage no_p_tether_stage)

lemma no_p_unrolled: "no_p (unrolled k s) = no_p s"
  by (induction k) (simp_all add: no_p_solver_iteration)

lemma skipped_unrolled:
  assumes "\<not> eps < self_w s ! i"
  shows "skipped i s (unrolled k s)"
  using skipped_fold_solver_iteration [OF assms] by (simp add: unrolled_fold)

lemma relaxed_low_mass:
  assumes "\<not> eps < self_w s ! i"
  shows "skipped i (predict_stage s) (unrolled k (predict_stage s))"
proof -
  have "self_w (predict_stage s) = self_w s"
    by (rule static_fields(1) [OF predict_stage_frame(1)])
  with assms have "\<not> eps < self_w (predict_stage s) ! i"
    by simp
  then show ?thesis
    by (rule skipped_unrolled)
qed

lemma substep_cpu_unrolled:
  "substep_cpu s = finalize_stage (unrolled (self_solver_num s) (predict_stage s))"
  by (simp add: substep_cpu_def solver_loop_fold unrolled_fold)

lemma relaxed_frame:
  "self_x (unrolled k (predict_stage s)) = self_x s"
  "self_v (unrolled k (predict_stage s)) = self_v (predict_stage s)"
  "self_vertex_num (unrolled k (predict_stage s)) = self_vertex_num s"
  "self_dt (unrolled k (predict_stage s)) = self_dt s"
  "self_w (unrolled k (predict_stage s)) = self_w s"
  "self_dt_negative_zero (unrolled k (predict_stage s)) = self_dt_negative_zero s"
proof -
  note a = no_p_fields [OF no_p_unrolled [of k "predict_stage s"]]
  note b = static_fields [OF predict_stage_frame(1) [of s]]
  show "self_x (unrolled k (predict_stage s)) = self_x s"
    using a(2) predict_stage_frame(2) [of s] by simp
  show "self_v (unrolled k (predict_stage s)) = self_v (predict_stage s)"
    using a(3) by simp
  show "self_vertex_num (unrolled k (predict_stage s)) = self_vertex_num s"
    using a(4) b(4) by simp
  show "self_dt (unrolled k (predict_stage s)) = self_dt s"
    using a(8) b(2) by simp
  show "self_w (unrolled k (predict_stage s)) = self_w s"
    using a(1) b(1) by simp
  show "self_dt_negative_zero (unrolled k (predict_stage s)) = self_dt_negative_zero s"
    using a(15) b(10) by simp
qed

text \<open>
  C10. A vertex whose inverse mass is at most \<open>eps\<close> (in particular one with
  \<open>0 < w \<le> eps\<close>) is skipped by the tether, link and collision sub-stages, from whatever
  state \<open>u\<close> with that inverse mass they are run. The predict stage still gives it the
  velocity \<open>exp (- dt * drag_damping) * (v + w * (dt * gravity))\<close> and the predicted
  position \<open>x + dt * v\<close>. After any number \<open>k\<close> of solver iterations its predicted position
  is still that one, and the substep commits it as the new position, wherever the
  collider is.
\<close>

theorem low_mass_vertex_is_never_corrected:
  assumes "self_w s ! i \<le> eps" and "self_w u ! i \<le> eps"
    and "i < self_vertex_num s" and "i < length (self_x s)"
    and "i < length (self_v s)" and "i < length (self_p s)"
  shows "self_p (tether_stage u) ! i = self_p u ! i \<and>
         self_p (link_stage n u) ! i = self_p u ! i \<and>
         self_p (collide_stage u) ! i = self_p u ! i \<and>
         self_v (predict_stage s) ! i = predicted_v s i \<and>
         self_p (predict_stage s) ! i = predicted_p s i \<and>
         self_p (unrolled k (predict_stage s)) ! i = predicted_p s i \<and>
         self_x (substep_cpu s) ! i = predicted_p s i"
proof -
  have u: "\<not> eps < self_w u ! i" and s: "\<not> eps < self_w s ! i"
    using assms by simp_all
  have 1: "self_p (tether_stage u) ! i = self_p u ! i"
    using skipped_tether_stage [OF u] by (simp add: skipped_def)
  have 2: "self_p (link_stage n u) ! i = self_p u ! i"
    using skipped_link_stage [OF u] by (simp add: skipped_def)
  have 3: "self_p (collide_stage u) ! i = self_p u ! i"
    using skipped_collide_stage [OF u] by (simp add: skipped_def)
  have 4: "self_v (predict_stage s) ! i = predicted_v s i"
    using assms by (simp add: predict_stage_nth)
  have 5: "self_p (predict_stage s) ! i = predicted_p s i"
    using assms by (simp add: predict_stage_nth)
  have 6: "self_p (unrolled k (predict_stage s)) ! i = predicted_p s i" for k
    using relaxed_low_mass [OF s, of k] 5 by (simp add: skipped_def)
  let ?r = "unrolled (self_solver_num s) (predict_stage s)"
  have "self_x (finalize_stage ?r) ! i = self_p ?r ! i"
    using assms by (simp add: finalize_stage_nth relaxed_frame)
  then have 7: "self_x (substep_cpu s) ! i = predicted_p s i"
    by (simp add: substep_cpu_unrolled 6)
  from 1 2 3 4 5 6 7 show ?thesis
    by simp
qed

theorem low_mass_vertex_is_never_corrected_witness:
  "self_w (two_vertex_sim (1 / 2000) 1 vzero vzero) ! 0 \<le> eps \<and>
   0 < self_w (two_vertex_sim (1 / 2000) 1 vzero vzero) ! 0 \<and>
   0 < self_vertex_num (two_vertex_sim (1 / 2000) 1 vzero vzero) \<and>
   self_p (two_vertex_sim (1 / 2000) 1 vzero vzero) ! 0
     = vfin (self_coll_origin (two_vertex_sim (1 / 2000) 1 vzero vzero)) \<and>
   self_p (collide_stage (two_vertex_sim (1 / 2000) 1 vzero vzero)) ! 0 = vzero \<and>
   self_x (substep_cpu (two_vertex_sim (1 / 2000) 1 vzero vzero)) ! 0
     = (Fin 0, Fin 0, Fin (- 49 / 100000000))"
proof -
  let ?s = "two_vertex_sim (1 / 2000) 1 vzero vzero"
  have h: "self_w ?s ! 0 \<le> eps" "0 < self_vertex_num ?s" "0 < length (self_x ?s)"
    "0 < length (self_v ?s)" "0 < length (self_p ?s)"
    and w: "0 < self_w ?s ! 0"
    and c: "self_p ?s ! 0 = vfin (self_coll_origin ?s)" "self_p ?s ! 0 = vzero"
    by (simp_all add: two_vertex_sim_def eps_def vzero_def)
  have p: "predicted_p ?s 0 = (Fin 0, Fin 0, Fin (- 49 / 100000000))"
    by (simp add: predicted_p_def predicted_v_def const_mul_def two_vertex_sim_def vzero_def
        gravity_def)
  from low_mass_vertex_is_never_corrected [OF h(1) h(1) h(2-5)] h w c p show ?thesis
    by simp
qed

section \<open>Norms\<close>

lemma vnorm_vfin: "vnorm (Fin a, Fin b, Fin c) = Fin (sqrt (a * a + b * b + c * c))"
  by (simp add: vnorm_def)

lemma vnorm_axis: "vnorm (Fin a, Fin 0, Fin 0) = Fin \<bar>a\<bar>"
  by (simp add: vnorm_def)

lemma normalized_vfin:
  assumes "sqrt (a * a + b * b + c * c) \<noteq> 0"
  shows "normalized (Fin a, Fin b, Fin c) =
    (Fin (a / sqrt (a * a + b * b + c * c)), Fin (b / sqrt (a * a + b * b + c * c)),
     Fin (c / sqrt (a * a + b * b + c * c)))"
  using assms by (simp add: normalized_def vnorm_vfin)

lemma collide_vertex_any_mass:
  assumes "eps < self_w s ! vi" and "eps < w'"
  shows "self_p (collide_vertex vi (s\<lparr>self_w := (self_w s)[vi := w']\<rparr>)) = self_p (collide_vertex vi s)"
proof (cases "vi < length (self_w s)")
  case True
  with assms show ?thesis
    by (simp add: collide_vertex_def Let_def)
next
  case False
  then have "(self_w s)[vi := w'] = self_w s"
    by (simp add: list_update_beyond)
  then show ?thesis
    by simp
qed

section \<open>Pinned vertices\<close>

lemma substep_unrolled:
  "substep s = finalize_stage (unrolled (self_solver_num s) (predict_stage s))"
  by (simp add: substep_def substep_cpu_unrolled substep_gpu_def)

lemma relaxed_lengths:
  "length (self_p (unrolled k (predict_stage s))) = length (self_p s)"
  "length (self_v (unrolled k (predict_stage s))) = length (self_v s)"
proof -
  have "\<not> eps < (0::real)" by (simp add: eps_def)
  show "length (self_v (unrolled k (predict_stage s))) = length (self_v s)"
    by (simp add: relaxed_frame predict_stage_frame)
  have "length (self_p (unrolled k t)) = length (self_p t)" for t
  proof (induction k)
    case 0
    show ?case by simp
  next
    case (Suc k)
    have "length (self_p (solver_iteration k u)) = length (self_p u)" for u
    proof -
      have a: "length (self_p (tether_stage u)) = length (self_p u)" for u
        unfolding tether_stage_def
        by (rule fold_inv [where P = "\<lambda>t. length (self_p t) = length (self_p u)"], simp,
            rule fold_inv [where P = "\<lambda>t. length (self_p t) = length (self_p u)"])
          (simp_all add: len_p_tether_pair)
      have b: "length (self_p (link_stage k u)) = length (self_p u)" for u
        unfolding link_stage_def
        by (rule fold_inv [where P = "\<lambda>t. length (self_p t) = length (self_p u)"])
          (simp_all add: len_p_link_correct)
      have c: "length (self_p (collide_stage u)) = length (self_p u)" for u
        unfolding collide_stage_def
        by (rule fold_inv [where P = "\<lambda>t. length (self_p t) = length (self_p u)"])
          (simp_all add: len_p_collide_vertex)
      show ?thesis
        by (simp add: solver_iteration_def a b c)
    qed
    with Suc show ?case by simp
  qed
  then show "length (self_p (unrolled k (predict_stage s))) = length (self_p s)"
    by (simp add: predict_stage_frame)
qed

lemma pinned_predicted:
  assumes "pinned i c s"
  shows "predicted_p s i = vfin c"
proof (cases "self_dt s = 0")
  case True
  with assms show ?thesis
    by (cases c) (simp add: pinned_def predicted_p_def const_mul_def vzero_def)
next
  case False
  with assms have "predicted_v s i = vzero"
    by (simp add: pinned_def predicted_v_def vzero_def gravity_def)
  with assms False show ?thesis
    by (cases c) (simp add: pinned_def predicted_p_def const_mul_def vzero_def)
qed

lemma pinned_substep:
  assumes "pinned i c s"
  shows "pinned i c (substep s)"
proof -
  let ?r = "unrolled (self_solver_num s) (predict_stage s)"
  let ?f = "finalize_stage ?r"
  from assms have i: "i < self_vertex_num s" "i < length (self_x s)" "i < length (self_v s)"
    "i < length (self_p s)" and w: "self_w s ! i = 0" and x: "self_x s ! i = vfin c"
    by (simp_all add: pinned_def)
  have low: "\<not> eps < self_w s ! i"
    using w by (simp add: eps_def)
  have pp: "self_p (predict_stage s) ! i = vfin c"
    using i by (simp add: predict_stage_nth pinned_predicted [OF assms])
  have pr: "self_p ?r ! i = vfin c"
    using relaxed_low_mass [OF low, of "self_solver_num s"] pp by (simp add: skipped_def)
  note st = static_fields [OF finalize_stage_frame(1) [of ?r]]
  have fx: "self_x ?f ! i = vfin c"
    using i by (simp add: finalize_stage_nth relaxed_frame pr)
  have fv: "self_v ?f ! i = vzero" if dt: "self_dt s \<noteq> 0"
  proof -
    have "final_v ?r i = vzero"
      using dt
      by (cases c) (simp add: final_v_def const_div_def pr relaxed_frame x vzero_def fsub_def)
    then show ?thesis
      using i by (simp add: finalize_stage_nth(1) relaxed_frame(3) relaxed_lengths)
  qed
  have "pinned i c ?f"
    unfolding pinned_def
    using i w fx fv
    by (auto simp: st relaxed_frame(1,3,4,5) finalize_stage_frame relaxed_lengths)
  then show ?thesis
    by (simp add: substep_unrolled)
qed

lemma pinned_run_substep: "pinned i c s \<Longrightarrow> pinned i c (run_substep loc frame step s)"
proof -
  assume "pinned i c s"
  then have "pinned i c (s\<lparr>self_coll_origin := loc frame step\<rparr>)"
    by (simp add: pinned_def)
  then show ?thesis
    unfolding run_substep_def by (rule pinned_substep)
qed

lemma pinned_frame_substeps: "pinned i c s \<Longrightarrow> pinned i c (frame_substeps loc frame s)"
  unfolding frame_substeps_def
  by (rule fold_inv [where P = "pinned i c"]) (simp_all add: pinned_run_substep)

lemma pinned_main: "pinned i c s \<Longrightarrow> pinned i c (snd (main loc frames s))"
  by (induction frames arbitrary: s) (simp_all add: Let_def pinned_frame_substeps)

section \<open>Properties of the constructor\<close>

lemma for_each_snoc:
  "for_each f (as @ [a]) s = (case for_each f as s of Inl e \<Rightarrow> Inl e | Inr t \<Rightarrow> f a t)"
  by (induction as arbitrary: s) (simp_all split: sum.splits)

lemma for_each_inv:
  assumes "for_each f as s = Inr s'" and "P s"
    and "\<And>a t t'. P t \<Longrightarrow> f a t = Inr t' \<Longrightarrow> P t'"
  shows "P s'"
  using assms(1,2)
proof (induction as arbitrary: s)
  case Nil
  then show ?case by simp
next
  case (Cons a as)
  then show ?case
    by (auto split: sum.splits intro: assms(3))
qed

lemma set_face_link_Inr:
  assumes "set_face_link obj v j s = Inr t"
  shows "1 + j < length v"
    and "t = s\<lparr>self_link := (self_link s)[self_link_idx s := (v ! j, v ! (j + 1))],
               self_link_len := (self_link_len s)[self_link_idx s :=
                  calc_dist (verts obj ! (v ! j)) (verts obj ! (v ! (j + 1)))],
               self_link_k := (self_link_k s)[self_link_idx s := k_bend],
               self_link_idx := self_link_idx s + 1\<rparr>"
  using assms by (simp_all add: set_face_link_def split: if_splits)

lemma set_face_Inr:
  assumes "set_face obj i s = Inr t"
  shows "t = s\<lparr>self_link := (self_link s)[self_link_idx s := (faces obj ! i ! 0, faces obj ! i ! 1),
                  self_link_idx s + 1 := (faces obj ! i ! 1, faces obj ! i ! 2)],
               self_link_len := (self_link_len s)[self_link_idx s :=
                  calc_dist (verts obj ! (faces obj ! i ! 0)) (verts obj ! (faces obj ! i ! 1)),
                  self_link_idx s + 1 :=
                  calc_dist (verts obj ! (faces obj ! i ! 1)) (verts obj ! (faces obj ! i ! 2))],
               self_link_k := (self_link_k s)[self_link_idx s := k_bend,
                  self_link_idx s + 1 := k_bend],
               self_link_idx := self_link_idx s + 2\<rparr>"
proof -
  from assms obtain s1 where 1: "set_face_link obj (faces obj ! i) 0 s = Inr s1"
    and 2: "set_face_link obj (faces obj ! i) 1 s1 = Inr t"
    by (auto simp: set_face_def Let_def split: sum.splits)
  show ?thesis
    using set_face_link_Inr(2) [OF 1] set_face_link_Inr(2) [OF 2]
    by (simp add: numeral_2_eq_2)
qed

lemma face_inv_step:
  assumes inv: "face_inv obj s n t" and step: "set_face obj n t = Inr t'"
    and len: "self_link_idx s + 2 * Suc n \<le> length (self_link s)"
      "self_link_idx s + 2 * Suc n \<le> length (self_link_len s)"
      "self_link_idx s + 2 * Suc n \<le> length (self_link_k s)"
  shows "face_inv obj s (Suc n) t'"
proof -
  let ?b = "self_link_idx s + 2 * n"
  from inv have idx: "self_link_idx t = ?b"
    and nl: "no_links t = no_links s"
    and l: "length (self_link t) = length (self_link s)"
      "length (self_link_len t) = length (self_link_len s)"
      "length (self_link_k t) = length (self_link_k s)"
    and old: "\<And>k. k < self_link_idx s \<Longrightarrow>
        self_link t ! k = self_link s ! k \<and> self_link_len t ! k = self_link_len s ! k \<and>
        self_link_k t ! k = self_link_k s ! k"
    and prev: "\<And>f j. f < n \<Longrightarrow> j < 2 \<Longrightarrow>
        self_link t ! (self_link_idx s + 2 * f + j)
          = (faces obj ! f ! j, faces obj ! f ! (j + 1)) \<and>
        self_link_len t ! (self_link_idx s + 2 * f + j)
          = calc_dist (verts obj ! (faces obj ! f ! j)) (verts obj ! (faces obj ! f ! (j + 1))) \<and>
        self_link_k t ! (self_link_idx s + 2 * f + j) = k_bend"
    by (simp_all add: face_inv_def)
  note t' = set_face_Inr [OF step, unfolded idx]
  have lk: "self_link t' = (self_link t)[?b := (faces obj ! n ! 0, faces obj ! n ! 1),
      ?b + 1 := (faces obj ! n ! 1, faces obj ! n ! 2)]"
    and ll: "self_link_len t' = (self_link_len t)[?b :=
      calc_dist (verts obj ! (faces obj ! n ! 0)) (verts obj ! (faces obj ! n ! 1)),
      ?b + 1 := calc_dist (verts obj ! (faces obj ! n ! 1)) (verts obj ! (faces obj ! n ! 2))]"
    and lkk: "self_link_k t' = (self_link_k t)[?b := k_bend, ?b + 1 := k_bend]"
    and li: "self_link_idx t' = ?b + 2"
    by (subst t', simp)+
  have 1: "no_links t' = no_links s"
    using nl by (subst t') (simp add: no_links_def)
  have 2: "\<And>k. k < self_link_idx s \<Longrightarrow>
        self_link t' ! k = self_link s ! k \<and> self_link_len t' ! k = self_link_len s ! k \<and>
        self_link_k t' ! k = self_link_k s ! k"
    using old by (simp add: lk ll lkk)
  have 3: "self_link t' ! (self_link_idx s + 2 * f + j)
          = (faces obj ! f ! j, faces obj ! f ! (j + 1)) \<and>
        self_link_len t' ! (self_link_idx s + 2 * f + j)
          = calc_dist (verts obj ! (faces obj ! f ! j)) (verts obj ! (faces obj ! f ! (j + 1))) \<and>
        self_link_k t' ! (self_link_idx s + 2 * f + j) = k_bend"
    if "f < Suc n" "j < 2" for f j
  proof (cases "f < n")
    case True
    then have "self_link_idx s + 2 * f + j \<noteq> ?b" "self_link_idx s + 2 * f + j \<noteq> ?b + 1"
      using that(2) by simp_all
    then show ?thesis
      using prev [OF True that(2)] by (simp add: lk ll lkk)
  next
    case False
    with that have f: "f = n" by simp
    from that(2) have "j = 0 \<or> j = 1" by auto
    then show ?thesis
    proof
      assume "j = 0"
      then show ?thesis
        using len l by (simp add: f lk ll lkk)
    next
      assume "j = 1"
      then show ?thesis
        using len l by (simp add: f lk ll lkk numeral_2_eq_2)
    qed
  qed
  show ?thesis
    unfolding face_inv_def using 1 2 3 l li by (simp add: lk ll lkk)
qed

lemma face_inv_for_each:
  assumes "for_each (set_face obj) [0..<n] s = Inr t"
    and "self_link_idx s + 2 * n \<le> length (self_link s)"
      "self_link_idx s + 2 * n \<le> length (self_link_len s)"
      "self_link_idx s + 2 * n \<le> length (self_link_k s)"
  shows "face_inv obj s n t"
  using assms
proof (induction n arbitrary: t)
  case 0
  then show ?case by (simp add: face_inv_def)
next
  case (Suc n)
  from Suc.prems(1) obtain u where u: "for_each (set_face obj) [0..<n] s = Inr u"
    and t: "set_face obj n u = Inr t"
    by (auto simp: for_each_snoc split: sum.splits)
  have "face_inv obj s n u"
    using Suc.IH [OF u] Suc.prems(2-4) by simp
  then show ?case
    using t Suc.prems(2-4) by (rule face_inv_step)
qed

lemma set_faces_inv:
  assumes "set_faces obj s = Inr t"
    and "self_link_idx s + 2 * self_face_num s \<le> length (self_link s)"
      "self_link_idx s + 2 * self_face_num s \<le> length (self_link_len s)"
      "self_link_idx s + 2 * self_face_num s \<le> length (self_link_k s)"
  shows "face_inv obj s (self_face_num s) t"
  using assms unfolding set_faces_def by (rule face_inv_for_each)

lemma no_links_fields:
  assumes "no_links s = no_links t"
  shows "self_x s = self_x t" "self_v s = self_v t" "self_p s = self_p t" "self_w s = self_w t"
    "self_dt s = self_dt t" "self_vertex_num s = self_vertex_num t"
    "self_edge_num s = self_edge_num t" "self_face_num s = self_face_num t"
    "self_link_num s = self_link_num t"
    "self_dt_negative_zero s = self_dt_negative_zero t"
proof -
  have "self_x (no_links s) = self_x (no_links t)" "self_v (no_links s) = self_v (no_links t)"
    "self_p (no_links s) = self_p (no_links t)" "self_w (no_links s) = self_w (no_links t)"
    "self_dt (no_links s) = self_dt (no_links t)"
    "self_vertex_num (no_links s) = self_vertex_num (no_links t)"
    "self_edge_num (no_links s) = self_edge_num (no_links t)"
    "self_face_num (no_links s) = self_face_num (no_links t)"
    "self_link_num (no_links s) = self_link_num (no_links t)"
    "self_dt_negative_zero (no_links s) = self_dt_negative_zero (no_links t)"
    using assms by simp_all
  then show "self_x s = self_x t" "self_v s = self_v t" "self_p s = self_p t"
    "self_w s = self_w t" "self_dt s = self_dt t" "self_vertex_num s = self_vertex_num t"
    "self_edge_num s = self_edge_num t" "self_face_num s = self_face_num t"
    "self_link_num s = self_link_num t"
    "self_dt_negative_zero s = self_dt_negative_zero t"
    by (simp_all add: no_links_def)
qed

lemma no_geom_fields:
  assumes "no_geom s = no_geom t"
  shows "self_v s = self_v t" "self_p s = self_p t"
    "self_dt s = self_dt t" "self_vertex_num s = self_vertex_num t"
    "self_edge_num s = self_edge_num t" "self_face_num s = self_face_num t"
    "self_link_num s = self_link_num t" "self_link s = self_link t"
    "self_link_len s = self_link_len t" "self_link_k s = self_link_k t"
    "self_enable_LRA s = self_enable_LRA t" "self_attach_num s = self_attach_num t"
    "self_dt_negative_zero s = self_dt_negative_zero t"
proof -
  have "self_v (no_geom s) = self_v (no_geom t)"
    "self_p (no_geom s) = self_p (no_geom t)"
    "self_dt (no_geom s) = self_dt (no_geom t)"
    "self_vertex_num (no_geom s) = self_vertex_num (no_geom t)"
    "self_edge_num (no_geom s) = self_edge_num (no_geom t)"
    "self_face_num (no_geom s) = self_face_num (no_geom t)"
    "self_link_num (no_geom s) = self_link_num (no_geom t)"
    "self_link (no_geom s) = self_link (no_geom t)"
    "self_link_len (no_geom s) = self_link_len (no_geom t)"
    "self_link_k (no_geom s) = self_link_k (no_geom t)"
    "self_enable_LRA (no_geom s) = self_enable_LRA (no_geom t)"
    "self_attach_num (no_geom s) = self_attach_num (no_geom t)"
    "self_dt_negative_zero (no_geom s) = self_dt_negative_zero (no_geom t)"
    using assms by simp_all
  then show "self_v s = self_v t" "self_p s = self_p t"
    "self_dt s = self_dt t" "self_vertex_num s = self_vertex_num t"
    "self_edge_num s = self_edge_num t" "self_face_num s = self_face_num t"
    "self_link_num s = self_link_num t" "self_link s = self_link t"
    "self_link_len s = self_link_len t" "self_link_k s = self_link_k t"
    "self_enable_LRA s = self_enable_LRA t" "self_attach_num s = self_attach_num t"
    "self_dt_negative_zero s = self_dt_negative_zero t"
    by (simp_all add: no_geom_def)
qed

lemma set_edge_Inr:
  assumes "set_edge obj i s = Inr t"
  shows "no_links t = no_links s" "self_link_idx t = self_link_idx s + 1"
    "length (self_link t) = length (self_link s)"
    "length (self_link_len t) = length (self_link_len s)"
    "length (self_link_k t) = length (self_link_k s)"
  using assms by (auto simp: set_edge_def Let_def no_links_def split: if_splits)

lemma set_edges_for_each:
  assumes "for_each (set_edge obj) [0..<n] s = Inr t"
  shows "no_links t = no_links s \<and> self_link_idx t = self_link_idx s + n \<and>
    length (self_link t) = length (self_link s) \<and>
    length (self_link_len t) = length (self_link_len s) \<and>
    length (self_link_k t) = length (self_link_k s)"
  using assms
proof (induction n arbitrary: t)
  case 0
  then show ?case by simp
next
  case (Suc n)
  from Suc.prems obtain u where u: "for_each (set_edge obj) [0..<n] s = Inr u"
    and t: "set_edge obj n u = Inr t"
    by (auto simp: for_each_snoc split: sum.splits)
  show ?case
    using Suc.IH [OF u] set_edge_Inr [OF t] by simp
qed

lemma no_geom_set_attachments: "no_geom (set_attachments obj s) = no_geom s"
  unfolding set_attachments_def
  by (rule fold_inv [where P = "\<lambda>t. no_geom t = no_geom s"])
    (simp_all add: set_attachment_def no_geom_def)

lemma self_x_set_attachments: "self_x (set_attachments obj s) = self_x s"
  unfolding set_attachments_def
  by (rule fold_inv [where P = "\<lambda>t. self_x t = self_x s"]) (simp_all add: set_attachment_def)

lemma init_vertex_frame:
  "no_geom (init_vertex obj pin_index i s) = no_geom s"
  "self_x (init_vertex obj pin_index i s) = (self_x s)[i := vfin (verts obj ! i)]"
proof -
  let ?s1 = "s\<lparr>self_x := (self_x s)[i := vfin (verts obj ! i)], self_w := (self_w s)[i := 1]\<rparr>"
  let ?g = "\<lambda>g t. if fst g = pin_index
                   then t\<lparr>self_w := (self_w t)[i := 1 - weight obj pin_index i]\<rparr> else t"
  let ?s2 = "fold ?g (groups obj ! i) ?s1"
  let ?P = "\<lambda>t. no_geom t = no_geom s \<and> self_x t = (self_x s)[i := vfin (verts obj ! i)]"
  have 2: "?P ?s2"
    by (rule fold_inv [where P = ?P]) (simp_all add: no_geom_def)
  have 3: "?P (fold (set_tether obj i) js ?s2)" for js
    by (rule fold_inv [where P = ?P], rule 2) (simp add: set_tether_def no_geom_def)
  have "init_vertex obj pin_index i s =
      (if self_enable_LRA ?s2 then fold (set_tether obj i) [0..<self_attach_num ?s2] ?s2 else ?s2)"
    by (simp add: init_vertex_def Let_def)
  moreover note 2 3 [of "[0..<self_attach_num ?s2]"]
  ultimately have "?P (init_vertex obj pin_index i s)"
    by (cases "self_enable_LRA ?s2") simp_all
  then show "no_geom (init_vertex obj pin_index i s) = no_geom s"
    "self_x (init_vertex obj pin_index i s) = (self_x s)[i := vfin (verts obj ! i)]"
    by simp_all
qed

lemma init_vertices:
  "no_geom (fold (init_vertex obj pin_index) [0..<n] s) = no_geom s \<and>
   length (self_x (fold (init_vertex obj pin_index) [0..<n] s)) = length (self_x s) \<and>
   (\<forall>j. j < n \<longrightarrow> j < length (self_x s) \<longrightarrow>
      self_x (fold (init_vertex obj pin_index) [0..<n] s) ! j = vfin (verts obj ! j))"
proof (induction n)
  case 0
  show ?case by simp
next
  case (Suc n)
  then show ?case
    by (auto simp: init_vertex_frame nth_list_update less_Suc_eq)
qed

lemma initialize_Inr:
  assumes "initialize obj pin_index a = Inr s0"
    and len: "self_edge_num a + 2 * self_face_num a \<le> length (self_link a)"
      "self_edge_num a + 2 * self_face_num a \<le> length (self_link_len a)"
      "self_edge_num a + 2 * self_face_num a \<le> length (self_link_k a)"
  shows "self_dt s0 = self_dt a" "self_vertex_num s0 = self_vertex_num a"
    "self_v s0 = self_v a" "self_p s0 = self_p a" "length (self_x s0) = length (self_x a)"
    "\<And>j. j < self_vertex_num a \<Longrightarrow> j < length (self_x a) \<Longrightarrow>
       self_x s0 ! j = vfin (verts obj ! j)"
    "self_link_idx s0 = self_edge_num a + 2 * self_face_num a"
    "\<And>f j. f < self_face_num a \<Longrightarrow> j < 2 \<Longrightarrow>
       self_link s0 ! (self_edge_num a + 2 * f + j) = (faces obj ! f ! j, faces obj ! f ! (j + 1)) \<and>
       self_link_len s0 ! (self_edge_num a + 2 * f + j)
         = calc_dist (verts obj ! (faces obj ! f ! j)) (verts obj ! (faces obj ! f ! (j + 1))) \<and>
       self_link_k s0 ! (self_edge_num a + 2 * f + j) = k_bend"
    "self_face_num s0 = self_face_num a" "self_edge_num s0 = self_edge_num a"
    "self_link_num s0 = self_link_num a"
    "self_dt_negative_zero s0 = self_dt_negative_zero a"
proof -
  define s1 where "s1 = (if self_enable_LRA a then set_attachments obj a else a)"
  define s2 where "s2 = fold (init_vertex obj pin_index) [0..<self_vertex_num s1] s1"
  define s3 where "s3 = s2\<lparr>self_link_idx := 0\<rparr>"
  from assms(1) obtain s4 where e: "set_edges obj s3 = Inr s4" and f: "set_faces obj s4 = Inr s0"
    by (auto simp: initialize_def Let_def s1_def s2_def s3_def split: sum.splits)
  have g1: "no_geom s1 = no_geom a" and x1: "self_x s1 = self_x a"
    by (simp_all add: s1_def no_geom_set_attachments self_x_set_attachments)
  note a1 = no_geom_fields [OF g1]
  note iv = init_vertices [of obj pin_index "self_vertex_num s1" s1, folded s2_def]
  from iv have g2: "no_geom s2 = no_geom s1" and lx2: "length (self_x s2) = length (self_x a)"
    and x2: "\<And>j. j < self_vertex_num a \<Longrightarrow> j < length (self_x a) \<Longrightarrow>
       self_x s2 ! j = vfin (verts obj ! j)"
    by (simp_all add: x1 a1)
  note a2 = no_geom_fields [OF g2]
  have n3: "no_links s3 = no_links s2"
    by (simp add: s3_def no_links_def)
  note a3 = no_links_fields [OF n3]
  have l3: "self_link s3 = self_link a" "self_link_len s3 = self_link_len a"
    "self_link_k s3 = self_link_k a" "self_link_idx s3 = 0"
    by (simp_all add: s3_def a2 a1)
  from e have "no_links s4 = no_links s3 \<and> self_link_idx s4 = self_link_idx s3 + self_edge_num s3 \<and>
    length (self_link s4) = length (self_link s3) \<and>
    length (self_link_len s4) = length (self_link_len s3) \<and>
    length (self_link_k s4) = length (self_link_k s3)"
    unfolding set_edges_def by (rule set_edges_for_each)
  then have n4: "no_links s4 = no_links s3" and i4: "self_link_idx s4 = self_edge_num a"
    and l4: "length (self_link s4) = length (self_link a)"
      "length (self_link_len s4) = length (self_link_len a)"
      "length (self_link_k s4) = length (self_link_k a)"
    by (simp_all add: l3 a3 a2 a1)
  note a4 = no_links_fields [OF n4]
  have fn4: "self_face_num s4 = self_face_num a"
    by (simp add: a4 a3 a2 a1)
  have fi: "face_inv obj s4 (self_face_num s4) s0"
    using f by (rule set_faces_inv) (simp_all add: i4 l4 fn4 len)
  then have n0: "no_links s0 = no_links s4"
    by (simp add: face_inv_def)
  note a0 = no_links_fields [OF n0]
  show "self_dt s0 = self_dt a" "self_vertex_num s0 = self_vertex_num a"
    "self_v s0 = self_v a" "self_p s0 = self_p a" "self_face_num s0 = self_face_num a"
    "self_edge_num s0 = self_edge_num a" "self_link_num s0 = self_link_num a"
    "self_dt_negative_zero s0 = self_dt_negative_zero a"
    by (simp_all add: a0 a4 a3 a2 a1)
  show "length (self_x s0) = length (self_x a)"
    by (simp add: a0 a4 a3 lx2)
  show "self_x s0 ! j = vfin (verts obj ! j)"
    if "j < self_vertex_num a" "j < length (self_x a)" for j
    using x2 [OF that] by (simp add: a0 a4 a3)
  show "self_link_idx s0 = self_edge_num a + 2 * self_face_num a"
    using fi by (simp add: face_inv_def i4 fn4)
  show "self_link s0 ! (self_edge_num a + 2 * f + j) = (faces obj ! f ! j, faces obj ! f ! (j + 1)) \<and>
       self_link_len s0 ! (self_edge_num a + 2 * f + j)
         = calc_dist (verts obj ! (faces obj ! f ! j)) (verts obj ! (faces obj ! f ! (j + 1))) \<and>
       self_link_k s0 ! (self_edge_num a + 2 * f + j) = k_bend"
    if "f < self_face_num a" "j < 2" for f j
    using fi that by (simp add: face_inv_def i4 fn4)
qed

section \<open>What the constructor returns\<close>

lemma upt_small: "[0..<1] = [0]" "[0..<2] = [0, 1]" "[0..<3] = [0, 1, 2]"
  by (simp_all add: upt_rec)

lemma demo_init: "TiClothSimulation (demo_phy ts n) fe = Inr (demo_sim ts n fe)"
  by (simp add: TiClothSimulation_def demo_phy_def triangle_cloth_def allocate_def Let_def
     initialize_def set_edges_def set_faces_def set_edge_def set_face_def set_face_link_def
     init_vertex_def weight_def upt_small numeral_3_eq_3 vzero_def demo_sim_def)

lemma sqrt_9: "sqrt 9 = 3"
  using real_sqrt_abs2 [of 3] by simp

lemma rod_init: "TiClothSimulation rod_phy 2 = Inr rod_sim"
  by (simp add: TiClothSimulation_def rod_phy_def rod_cloth_def allocate_def Let_def
     initialize_def set_edges_def set_faces_def set_edge_def
     init_vertex_def upt_small vzero_def rod_sim_def sqrt_9)

text \<open>
  A mesh without links is refused, the link fields would have size 0; so is an
  attachment group without vertices.
\<close>

lemma mesh_without_links_refused:
  "TiClothSimulation (rod_phy\<lparr>cloth_obj := rod_cloth\<lparr>edges := []\<rparr>\<rparr>) 2 = Inl TaichiRuntimeError"
  by (simp add: TiClothSimulation_def rod_phy_def rod_cloth_def allocate_def Let_def)

lemma attachment_group_without_vertices_refused:
  "TiClothSimulation (rod_phy\<lparr>enable_LRA := True, attach_group := ''pin''\<rparr>) 2
     = Inl TaichiRuntimeError"
  by (simp add: TiClothSimulation_def rod_phy_def rod_cloth_def allocate_def allocate_LRA_def
      Let_def upt_small)

lemma allocate_fields:
  assumes "allocate phy fe = Inr a"
  shows "self_dt a = time_step phy / 1000"
    "self_vertex_num a = length (verts (cloth_obj phy))"
    "self_edge_num a = length (edges (cloth_obj phy))"
    "self_face_num a = length (faces (cloth_obj phy))"
    "self_x a = replicate (length (verts (cloth_obj phy))) vzero"
    "self_v a = replicate (length (verts (cloth_obj phy))) vzero"
    "self_p a = replicate (length (verts (cloth_obj phy))) vzero"
    "length (self_link a) = length (edges (cloth_obj phy)) + 2 * length (faces (cloth_obj phy))"
    "length (self_link_len a) = length (edges (cloth_obj phy)) + 2 * length (faces (cloth_obj phy))"
    "length (self_link_k a) = length (edges (cloth_obj phy)) + 2 * length (faces (cloth_obj phy))"
    "self_dt_negative_zero a = time_step_negative_zero phy"
    "0 < length (verts (cloth_obj phy))"
    "0 < length (edges (cloth_obj phy)) + 2 * length (faces (cloth_obj phy))"
  using assms by (auto simp: allocate_def Let_def split: if_splits)

lemma allocate_LRA_fields:
  assumes "allocate_LRA obj ai s = Inr a"
  shows "self_dt a = self_dt s"
    "self_vertex_num a = self_vertex_num s"
    "self_edge_num a = self_edge_num s"
    "self_face_num a = self_face_num s"
    "self_x a = self_x s"
    "self_v a = self_v s"
    "self_p a = self_p s"
    "self_link a = self_link s"
    "self_link_len a = self_link_len s"
    "self_link_k a = self_link_k s"
    "self_dt_negative_zero a = self_dt_negative_zero s"
    "0 < self_attach_num a"
  using assms by (auto simp: allocate_LRA_def Let_def split: if_splits)

lemma TiClothSimulation_Inr:
  assumes "TiClothSimulation phy fe = Inr s0"
  shows "self_dt s0 = time_step phy / 1000"
    "sized (length (verts (cloth_obj phy))) s0"
    "self_v s0 = replicate (length (verts (cloth_obj phy))) vzero"
    "\<And>j. j < length (verts (cloth_obj phy)) \<Longrightarrow> self_x s0 ! j = vfin (verts (cloth_obj phy) ! j)"
    "self_link_idx s0 = length (edges (cloth_obj phy)) + 2 * length (faces (cloth_obj phy))"
    "\<And>f j. f < length (faces (cloth_obj phy)) \<Longrightarrow> j < 2 \<Longrightarrow>
       self_link s0 ! (length (edges (cloth_obj phy)) + 2 * f + j)
         = (faces (cloth_obj phy) ! f ! j, faces (cloth_obj phy) ! f ! (j + 1)) \<and>
       self_link_len s0 ! (length (edges (cloth_obj phy)) + 2 * f + j)
         = calc_dist (verts (cloth_obj phy) ! (faces (cloth_obj phy) ! f ! j))
             (verts (cloth_obj phy) ! (faces (cloth_obj phy) ! f ! (j + 1))) \<and>
       self_link_k s0 ! (length (edges (cloth_obj phy)) + 2 * f + j) = k_bend"
    "self_dt_negative_zero s0 = time_step_negative_zero phy"
proof -
  let ?obj = "cloth_obj phy"
  from assms obtain pin_index a0 a where i: "initialize ?obj pin_index a = Inr s0"
    and a0: "allocate phy fe = Inr a0"
    and a: "a = a0 \<or> (\<exists>ai. allocate_LRA ?obj ai a0 = Inr a)"
    by (auto simp: TiClothSimulation_def Let_def split: option.splits if_splits sum.splits)
  from a have f: "self_dt a = time_step phy / 1000"
    "self_vertex_num a = length (verts ?obj)"
    "self_edge_num a = length (edges ?obj)"
    "self_face_num a = length (faces ?obj)"
    "self_x a = replicate (length (verts ?obj)) vzero"
    "self_v a = replicate (length (verts ?obj)) vzero"
    "self_p a = replicate (length (verts ?obj)) vzero"
    "length (self_link a) = length (edges ?obj) + 2 * length (faces ?obj)"
    "length (self_link_len a) = length (edges ?obj) + 2 * length (faces ?obj)"
    "length (self_link_k a) = length (edges ?obj) + 2 * length (faces ?obj)"
    "self_dt_negative_zero a = time_step_negative_zero phy"
    by (auto simp: allocate_fields [OF a0] allocate_LRA_fields)
  note r = initialize_Inr [OF i]
  have len: "self_edge_num a + 2 * self_face_num a \<le> length (self_link a)"
      "self_edge_num a + 2 * self_face_num a \<le> length (self_link_len a)"
      "self_edge_num a + 2 * self_face_num a \<le> length (self_link_k a)"
    by (simp_all add: f)
  show "self_dt s0 = time_step phy / 1000"
    using r(1) [OF len] by (simp add: f)
  show "self_dt_negative_zero s0 = time_step_negative_zero phy"
    using r(12) [OF len] by (simp add: f)
  show "sized (length (verts ?obj)) s0"
    using r(2-5) [OF len] by (simp add: sized_def f)
  show "self_v s0 = replicate (length (verts ?obj)) vzero"
    using r(3) [OF len] by (simp add: f)
  show "self_x s0 ! j = vfin (verts ?obj ! j)" if "j < length (verts ?obj)" for j
    using r(6) [OF len, of j] that by (simp add: f)
  show "self_link_idx s0 = length (edges ?obj) + 2 * length (faces ?obj)"
    using r(7) [OF len] by (simp add: f)
  show "self_link s0 ! (length (edges ?obj) + 2 * f + j)
         = (faces ?obj ! f ! j, faces ?obj ! f ! (j + 1)) \<and>
       self_link_len s0 ! (length (edges ?obj) + 2 * f + j)
         = calc_dist (verts ?obj ! (faces ?obj ! f ! j)) (verts ?obj ! (faces ?obj ! f ! (j + 1))) \<and>
       self_link_k s0 ! (length (edges ?obj) + 2 * f + j) = k_bend"
    if "f < length (faces ?obj)" "j < 2" for f j
    using r(8) [OF len, of f j] that by (simp add: f)
qed

text \<open>
  C5. When the constructor succeeds, face number \<open>f\<close> of the mesh has exactly two links,
  in the slots \<open>E + 2 * f\<close> and \<open>E + 2 * f + 1\<close> after the \<open>E\<close> edge links: for \<open>j = 0\<close> and
  \<open>j = 1\<close> the link joins the vertices at positions \<open>j\<close> and \<open>j + 1\<close> of the face's vertex
  list (0 with 1, and 1 with 2), its rest length is the distance between the mesh
  coordinates of these two vertices, and its stiffness is \<open>k_bend\<close>. The link counter
  ends at \<open>E + 2 * F\<close>.
\<close>

theorem two_bending_links_per_face:
  assumes "TiClothSimulation phy frame_end = Inr s0"
    and "f < length (faces (cloth_obj phy))" and "j < 2"
  shows "self_link s0 ! (length (edges (cloth_obj phy)) + 2 * f + j)
           = (faces (cloth_obj phy) ! f ! j, faces (cloth_obj phy) ! f ! (j + 1)) \<and>
         self_link_len s0 ! (length (edges (cloth_obj phy)) + 2 * f + j)
           = calc_dist (verts (cloth_obj phy) ! (faces (cloth_obj phy) ! f ! j))
               (verts (cloth_obj phy) ! (faces (cloth_obj phy) ! f ! (j + 1))) \<and>
         self_link_k s0 ! (length (edges (cloth_obj phy)) + 2 * f + j) = k_bend \<and>
         self_link_idx s0 = length (edges (cloth_obj phy)) + 2 * length (faces (cloth_obj phy))"
  using TiClothSimulation_Inr(6) [OF assms] TiClothSimulation_Inr(5) [OF assms(1)]
  by simp

theorem two_bending_links_per_face_witness:
  "TiClothSimulation (demo_phy 5 1) 1 = Inr (demo_sim 5 1 1) \<and>
   (0::nat) < length (faces (cloth_obj (demo_phy 5 1))) \<and> (1::nat) < 2 \<and>
   self_link (demo_sim 5 1 1) ! (3 + 2 * 0 + 1) = (1, 2) \<and>
   self_link_len (demo_sim 5 1 1) ! (3 + 2 * 0 + 1) = sqrt 2 \<and>
   self_link_k (demo_sim 5 1 1) ! (3 + 2 * 0 + 1) = k_bend \<and>
   self_link_idx (demo_sim 5 1 1) = 3 + 2 * 1"
proof -
  have f: "(0::nat) < length (faces (cloth_obj (demo_phy 5 1)))"
    by (simp add: demo_phy_def triangle_cloth_def)
  have j: "(1::nat) < 2"
    by simp
  show ?thesis
    using two_bending_links_per_face [OF demo_init f j, of 1] demo_init [of 5 1 1] f
    by (simp add: demo_phy_def triangle_cloth_def eval_nat_numeral)
qed

section \<open>The time step of a substep\<close>

lemma substep_frame:
  "self_dt (substep s) = self_dt s" "self_w (substep s) = self_w s"
  "self_vertex_num (substep s) = self_vertex_num s"
  "self_substep_num (substep s) = self_substep_num s"
  "self_dt_negative_zero (substep s) = self_dt_negative_zero s"
proof -
  let ?r = "unrolled (self_solver_num s) (predict_stage s)"
  note a = static_fields [OF finalize_stage_frame(1) [of ?r]]
  note b = static_fields [OF static_no_p [OF no_p_unrolled [of "self_solver_num s" "predict_stage s"]]]
  note c = static_fields [OF predict_stage_frame(1) [of s]]
  show "self_dt (substep s) = self_dt s" "self_w (substep s) = self_w s"
    "self_vertex_num (substep s) = self_vertex_num s"
    "self_substep_num (substep s) = self_substep_num s"
    "self_dt_negative_zero (substep s) = self_dt_negative_zero s"
    by (simp_all add: substep_unrolled a b c)
qed

lemma sized_substep: "sized n s \<Longrightarrow> sized n (substep s)"
  by (simp add: sized_def substep_unrolled finalize_stage_frame relaxed_lengths relaxed_frame(1)
      substep_frame(3) [unfolded substep_unrolled])

lemma reaches_frame:
  assumes "reaches s0 s"
  shows "self_dt s = self_dt s0" and "sized n s0 \<Longrightarrow> sized n s"
  using assms
proof (induction rule: reaches.induct)
  case (start s0)
  {
    case 1
    show ?case by simp
  next
    case 2
    then show ?case by simp
  }
next
  case (step s0 s c)
  {
    case 1
    then show ?case
      using step.IH(1) by (simp add: substep_frame)
  next
    case 2
    then have "sized n s"
      by (rule step.IH(2))
    then have "sized n (s\<lparr>self_coll_origin := c\<rparr>)"
      by (simp add: sized_def)
    then show ?case
      by (rule sized_substep)
  }
qed

lemma reaches_negative_zero:
  assumes "reaches s0 s"
  shows "self_dt_negative_zero s = self_dt_negative_zero s0"
  using assms by (induction rule: reaches.induct) (simp_all add: substep_frame)

lemma substep_velocity:
  assumes "sized n s" and "i < n"
  shows "self_v (substep s) ! i
    = const_div (vsub (self_x (substep s) ! i) (self_x s ! i)) (self_dt s)
        (self_dt_negative_zero s)"
proof -
  let ?r = "unrolled (self_solver_num s) (predict_stage s)"
  from assms have i: "i < self_vertex_num s" "i < length (self_x s)" "i < length (self_v s)"
    by (simp_all add: sized_def)
  have "self_v (finalize_stage ?r) ! i = final_v ?r i"
    using i by (simp add: finalize_stage_nth(1) relaxed_frame(3) relaxed_lengths)
  moreover have "self_x (finalize_stage ?r) ! i = self_p ?r ! i"
    using i by (simp add: finalize_stage_nth(2) relaxed_frame(1,3))
  ultimately show ?thesis
    by (simp add: substep_unrolled final_v_def relaxed_frame(1,4,6))
qed

text \<open>
  C1, as stated: the time increment of a substep is the frame time step divided by the
  substep count. With a time step of 1000 ms and 2 substeps per frame the constructor
  stores \<open>dt = 1\<close>: neither the time step in seconds divided by 2 nor the raw time step
  divided by 2.
\<close>

theorem dt_is_not_divided_by_substep_num:
  "TiClothSimulation (demo_phy 1000 2) 1 = Inr (demo_sim 1000 2 1) \<and>
   self_substep_num (demo_sim 1000 2 1) = 2 \<and>
   self_dt (demo_sim 1000 2 1) = 1 \<and>
   self_dt (demo_sim 1000 2 1)
     \<noteq> time_step (demo_phy 1000 2) / 1000 / real (substep_num (demo_phy 1000 2)) \<and>
   self_dt (demo_sim 1000 2 1)
     \<noteq> time_step (demo_phy 1000 2) / real (substep_num (demo_phy 1000 2))"
  using demo_init [of 1000 2 1] by (simp add: demo_sim_def demo_phy_def)

text \<open>
  C1, amended. In every state \<open>s\<close> that substeps reach from the state the constructor
  returns, the time increment is \<open>dt = time_step / 1000\<close>, the same for every substep count:
  the predict stage sets \<open>p = x + dt * v\<close> with it, and the velocity the substep leaves is
  the displacement of the substep divided by it (the product with and the quotient by
  the constant \<open>dt\<close> of the compiled kernel).
\<close>

theorem substep_advances_by_time_step:
  assumes "TiClothSimulation phy frame_end = Inr s0" and "reaches s0 s"
    and "i < length (verts (cloth_obj phy))"
  shows "self_dt s = time_step phy / 1000 \<and>
         self_p (predict_stage s) ! i
           = vadd (self_x s ! i)
               (const_mul (time_step phy / 1000) (self_v (predict_stage s) ! i)) \<and>
         self_v (substep s) ! i
           = const_div (vsub (self_x (substep s) ! i) (self_x s ! i)) (time_step phy / 1000)
               (time_step_negative_zero phy)"
proof -
  let ?n = "length (verts (cloth_obj phy))"
  have dt: "self_dt s = time_step phy / 1000"
    using reaches_frame(1) [OF assms(2)] TiClothSimulation_Inr(1) [OF assms(1)] by simp
  have nz: "self_dt_negative_zero s = time_step_negative_zero phy"
    using reaches_negative_zero [OF assms(2)] TiClothSimulation_Inr(7) [OF assms(1)] by simp
  have sz: "sized ?n s"
    using TiClothSimulation_Inr(2) [OF assms(1)] by (rule reaches_frame(2) [OF assms(2)])
  then have i: "i < self_vertex_num s" "i < length (self_v s)" "i < length (self_p s)"
    using assms(3) by (simp_all add: sized_def)
  have "self_p (predict_stage s) ! i = predicted_p s i"
    and "self_v (predict_stage s) ! i = predicted_v s i"
    using i by (simp_all add: predict_stage_nth)
  then have p: "self_p (predict_stage s) ! i
      = vadd (self_x s ! i) (const_mul (self_dt s) (self_v (predict_stage s) ! i))"
    by (simp add: predicted_p_def)
  note v = substep_velocity [OF sz assms(3)]
  show ?thesis
    using p v unfolding dt nz by (intro conjI refl)
qed

theorem substep_advances_by_time_step_witness:
  "TiClothSimulation (demo_phy 1000 2) 1 = Inr (demo_sim 1000 2 1) \<and>
   reaches (demo_sim 1000 2 1) (substep ((demo_sim 1000 2 1)\<lparr>self_coll_origin := (0, 0, 9)\<rparr>)) \<and>
   (1::nat) < length (verts (cloth_obj (demo_phy 1000 2))) \<and>
   self_dt (substep ((demo_sim 1000 2 1)\<lparr>self_coll_origin := (0, 0, 9)\<rparr>)) = 1"
proof -
  have r: "reaches (demo_sim 1000 2 1)
      (substep ((demo_sim 1000 2 1)\<lparr>self_coll_origin := (0, 0, 9)\<rparr>))"
    by (rule reaches.step [OF reaches.start])
  have i: "(1::nat) < length (verts (cloth_obj (demo_phy 1000 2)))"
    by (simp add: demo_phy_def triangle_cloth_def)
  show ?thesis
    using substep_advances_by_time_step [OF demo_init r i] demo_init [of 1000 2 1] r i
    by (simp add: demo_phy_def)
qed

section \<open>Pinned vertices over frames\<close>

lemma pinned_initially:
  assumes "TiClothSimulation phy frame_end = Inr s0"
    and "i < length (verts (cloth_obj phy))" and "self_w s0 ! i = 0"
  shows "pinned i (verts (cloth_obj phy) ! i) s0"
  using TiClothSimulation_Inr(1-4) [OF assms(1)] assms(2,3)
  by (simp add: pinned_def sized_def)

lemma substep_low_mass:
  assumes "sized n s" and "i < n" and "\<not> eps < self_w s ! i"
  shows "self_x (substep s) ! i = predicted_p s i"
    and "self_v (substep s) ! i
      = const_div (vsub (predicted_p s i) (self_x s ! i)) (self_dt s) (self_dt_negative_zero s)"
proof -
  let ?r = "unrolled (self_solver_num s) (predict_stage s)"
  from assms have i: "i < self_vertex_num s" "i < length (self_x s)" "i < length (self_v s)"
    "i < length (self_p s)"
    by (simp_all add: sized_def)
  have "self_p (predict_stage s) ! i = predicted_p s i"
    using i by (simp add: predict_stage_nth)
  then have pr: "self_p ?r ! i = predicted_p s i"
    using relaxed_low_mass [OF assms(3), of "self_solver_num s"] by (simp add: skipped_def)
  have "self_x (finalize_stage ?r) ! i = self_p ?r ! i"
    using i by (simp add: finalize_stage_nth(2) relaxed_frame(1,3))
  then show x: "self_x (substep s) ! i = predicted_p s i"
    by (simp add: substep_unrolled pr)
  show "self_v (substep s) ! i
      = const_div (vsub (predicted_p s i) (self_x s ! i)) (self_dt s) (self_dt_negative_zero s)"
    using substep_velocity [OF assms(1,2)] by (simp add: x)
qed

text \<open>
  C2. Let the constructor return \<open>s0\<close>, for any settings and any mesh it accepts, and let
  vertex \<open>i\<close> have inverse mass 0. After any sequence of frames (each running its
  substeps, with any collider positions) the position of the vertex is the one it had
  in \<open>s0\<close>, and one more frame leaves it unchanged again. This includes a time step of 0:
  the velocity of the vertex then becomes \<open>0 / 0 = NaN\<close> in the first substep, but the
  product \<open>dt * v\<close> of the predict stage is the constant 0, so the position stays.
\<close>

theorem pinned_vertex_never_moves:
  assumes "TiClothSimulation phy frame_end = Inr s0"
    and "i < length (verts (cloth_obj phy))" and "self_w s0 ! i = 0"
  shows "self_x (snd (main loc frames s0)) ! i = self_x s0 ! i \<and>
         self_x (frame_substeps loc frame (snd (main loc frames s0))) ! i
           = self_x (snd (main loc frames s0)) ! i"
proof -
  let ?c = "verts (cloth_obj phy) ! i"
  have 0: "pinned i ?c s0"
    using assms by (rule pinned_initially)
  then have 1: "pinned i ?c (snd (main loc frames s0))"
    by (rule pinned_main)
  then have 2: "pinned i ?c (frame_substeps loc frame (snd (main loc frames s0)))"
    by (rule pinned_frame_substeps)
  from 0 1 2 show ?thesis
    by (simp add: pinned_def)
qed

theorem pinned_vertex_never_moves_witness:
  "TiClothSimulation (demo_phy 5 2) 3 = Inr (demo_sim 5 2 3) \<and>
   (0::nat) < length (verts (cloth_obj (demo_phy 5 2))) \<and>
   self_w (demo_sim 5 2 3) ! 0 = 0 \<and>
   self_x (snd (animate (collider_at (0, 0, 9)) (demo_sim 5 2 3))) ! 0 = vzero \<and>
   TiClothSimulation (demo_phy 0 2) 3 = Inr (demo_sim 0 2 3) \<and>
   self_w (demo_sim 0 2 3) ! 0 = 0 \<and>
   self_v (substep (demo_sim 0 2 3)) ! 0 = vnan \<and>
   self_x (snd (animate (collider_at (0, 0, 9)) (demo_sim 0 2 3))) ! 0 = vzero"
proof -
  have b: "(0::nat) < length (verts (cloth_obj (demo_phy ts 2)))"
    and c: "self_w (demo_sim ts 2 3) ! 0 = 0" for ts
    by (simp_all add: demo_phy_def triangle_cloth_def demo_sim_def)
  have z: "sized 3 (demo_sim 0 2 3)" and w: "\<not> eps < self_w (demo_sim 0 2 3) ! 0"
    by (simp_all add: sized_def demo_sim_def eps_def)
  have v: "self_v (substep (demo_sim 0 2 3)) ! 0 = vnan"
    using substep_low_mass(2) [OF z _ w]
    by (simp add: predicted_p_def const_mul_def const_div_def demo_sim_def vzero_def vnan_def
        fsub_def)
  show ?thesis
    using
      pinned_vertex_never_moves [OF demo_init [of 5 2 3] b [of 5] c [of 5],
        of "collider_at (0, 0, 9)" "[0..<3]"]
      pinned_vertex_never_moves [OF demo_init [of 0 2 3] b [of 0] c [of 0],
        of "collider_at (0, 0, 9)" "[0..<3]"]
      demo_init [of 5 2 3] demo_init [of 0 2 3] b [of 5] c v
    by (simp add: animate_def demo_sim_def vzero_def)
qed

section \<open>Link corrections\<close>

lemma link_correct_endpoints:
  assumes "eps < self_w s ! fst (self_link s ! l)" and "eps < self_w s ! snd (self_link s ! l)"
    and "fst (self_link s ! l) \<noteq> snd (self_link s ! l)"
    and "fst (self_link s ! l) < length (self_p s)" and "snd (self_link s ! l) < length (self_p s)"
  shows "self_p (link_correct n l s) ! fst (self_link s ! l)
      = vadd (self_p s ! fst (self_link s ! l)) (link_disp0 n l s)"
    and "self_p (link_correct n l s) ! snd (self_link s ! l)
      = vadd (self_p s ! snd (self_link s ! l)) (link_disp1 n l s)"
  using assms
  by (simp_all add: link_correct_def Let_def link_disp0_def link_disp1_def link_p_01_def)

lemma vnorm_smul:
  "vnorm (smul (Fin k) (Fin a, Fin b, Fin c)) = fmul (Fin \<bar>k\<bar>) (vnorm (Fin a, Fin b, Fin c))"
proof -
  have "k * a * (k * a) + k * b * (k * b) + k * c * (k * c) = (k * k) * (a * a + b * b + c * c)"
    by (simp add: algebra_simps)
  then have "sqrt (k * a * (k * a) + k * b * (k * b) + k * c * (k * c))
      = \<bar>k\<bar> * sqrt (a * a + b * b + c * c)"
    by (simp add: real_sqrt_mult)
  then show ?thesis
    by (simp add: vnorm_vfin)
qed

lemma link_disp_finite:
  assumes "link_p_01 l s = (Fin a, Fin b, Fin c)" and "sqrt (a * a + b * b + c * c) \<noteq> 0"
  shows "link_disp0 n l s =
      (let r = sqrt (a * a + b * b + c * c);
           k = kp_of (self_link_k s ! l) n
             * (- 0.5 * self_w s ! fst (self_link s ! l) * (r - self_link_len s ! l))
       in (Fin (k * (1 / r * a)), Fin (k * (1 / r * b)), Fin (k * (1 / r * c))))"
    and "link_disp1 n l s =
      (let r = sqrt (a * a + b * b + c * c);
           k = kp_of (self_link_k s ! l) n
             * (0.5 * self_w s ! snd (self_link s ! l) * (r - self_link_len s ! l))
       in (Fin (k * (1 / r * a)), Fin (k * (1 / r * b)), Fin (k * (1 / r * c))))"
  using assms(2)
  by (simp_all add: link_disp0_def link_disp1_def assms(1) link_dp0_def link_dp1_def
      normalized_vfin vnorm_vfin fsub_def Let_def)

lemma distinct_points_apart:
  assumes "(a1, a2, a3) \<noteq> (b1, b2, b3 :: real)"
  shows "sqrt ((a1 - b1) * (a1 - b1) + (a2 - b2) * (a2 - b2) + (a3 - b3) * (a3 - b3)) \<noteq> 0"
proof
  assume "sqrt ((a1 - b1) * (a1 - b1) + (a2 - b2) * (a2 - b2) + (a3 - b3) * (a3 - b3)) = 0"
  then have "(a1 - b1) * (a1 - b1) + (a2 - b2) * (a2 - b2) + (a3 - b3) * (a3 - b3) = 0"
    by simp
  moreover have "0 \<le> (a1 - b1) * (a1 - b1)" "0 \<le> (a2 - b2) * (a2 - b2)"
    "0 \<le> (a3 - b3) * (a3 - b3)"
    by simp_all
  ultimately have "(a1 - b1) * (a1 - b1) = 0 \<and> (a2 - b2) * (a2 - b2) = 0 \<and>
      (a3 - b3) * (a3 - b3) = 0"
    by linarith
  with assms show False
    by simp
qed

text \<open>
  C3, as stated: \<open>w0 * disp0 = w1 * disp1\<close> for the magnitudes of the two endpoint
  displacements of a link correction. For a link of rest length 1 whose endpoints are 2
  apart, with inverse masses 1 and 1/2, the displacements have magnitudes 9/20 and 9/40:
  \<open>w0 * disp0 = 9/20\<close> and \<open>w1 * disp1 = 9/80\<close>.
\<close>

theorem link_correction_products_differ:
  "eps < self_w (two_vertex_sim 1 (1 / 2) (Fin 2, Fin 0, Fin 0) vzero) ! 0 \<and>
   eps < self_w (two_vertex_sim 1 (1 / 2) (Fin 2, Fin 0, Fin 0) vzero) ! 1 \<and>
   fmul (Fin (self_w (two_vertex_sim 1 (1 / 2) (Fin 2, Fin 0, Fin 0) vzero) ! 0))
     (vnorm (link_disp0 0 0 (two_vertex_sim 1 (1 / 2) (Fin 2, Fin 0, Fin 0) vzero)))
     = Fin (9 / 20) \<and>
   fmul (Fin (self_w (two_vertex_sim 1 (1 / 2) (Fin 2, Fin 0, Fin 0) vzero) ! 1))
     (vnorm (link_disp1 0 0 (two_vertex_sim 1 (1 / 2) (Fin 2, Fin 0, Fin 0) vzero)))
     = Fin (9 / 80) \<and>
   fmul (Fin (self_w (two_vertex_sim 1 (1 / 2) (Fin 2, Fin 0, Fin 0) vzero) ! 0))
     (vnorm (link_disp0 0 0 (two_vertex_sim 1 (1 / 2) (Fin 2, Fin 0, Fin 0) vzero)))
     \<noteq> fmul (Fin (self_w (two_vertex_sim 1 (1 / 2) (Fin 2, Fin 0, Fin 0) vzero) ! 1))
         (vnorm (link_disp1 0 0 (two_vertex_sim 1 (1 / 2) (Fin 2, Fin 0, Fin 0) vzero)))"
proof -
  let ?s = "two_vertex_sim 1 (1 / 2) (Fin 2, Fin 0, Fin 0) vzero"
  have p: "link_p_01 0 ?s = (Fin 2, Fin 0, Fin 0)"
    by (simp add: link_p_01_def two_vertex_sim_def vzero_def fsub_def)
  have r: "sqrt (2 * 2 + 0 * 0 + 0 * 0) \<noteq> (0::real)"
    by simp
  have k: "kp_of k_stretch 0 = 9 / 10"
    by (simp add: kp_of_def k_stretch_def)
  have s2: "sqrt 4 = (2::real)"
    using real_sqrt_abs2 [of 2] by simp
  have 0: "link_disp0 0 0 ?s = (Fin (- 9 / 20), Fin 0, Fin 0)"
    using link_disp_finite(1) [OF p r, of 0] by (simp add: two_vertex_sim_def k s2 Let_def)
  have 1: "link_disp1 0 0 ?s = (Fin (9 / 40), Fin 0, Fin 0)"
    using link_disp_finite(2) [OF p r, of 0] by (simp add: two_vertex_sim_def k s2 Let_def)
  show ?thesis
    by (simp add: 0 1 vnorm_axis) (simp add: two_vertex_sim_def eps_def)
qed

text \<open>
  C3, amended. When a link correction is applied to two endpoints with inverse masses
  \<open>w0, w1 > eps\<close> at distinct finite predicted positions, it adds \<open>link_disp0\<close> to the
  first and \<open>link_disp1\<close> to the second, and these satisfy \<open>w1 * disp0 = - w0 * disp1\<close>
  as vectors and \<open>w1 * |disp0| = w0 * |disp1|\<close> in magnitude: each displacement is
  proportional to the inverse mass of its own endpoint, and the two are opposite.
\<close>

theorem link_corrections_mass_weighted:
  assumes "eps < self_w s ! fst (self_link s ! l)" and "eps < self_w s ! snd (self_link s ! l)"
    and "self_p s ! fst (self_link s ! l) = vfin a"
    and "self_p s ! snd (self_link s ! l) = vfin b" and "a \<noteq> b"
    and "fst (self_link s ! l) < length (self_p s)" and "snd (self_link s ! l) < length (self_p s)"
  shows "self_p (link_correct n l s) ! fst (self_link s ! l)
           = vadd (self_p s ! fst (self_link s ! l)) (link_disp0 n l s) \<and>
         self_p (link_correct n l s) ! snd (self_link s ! l)
           = vadd (self_p s ! snd (self_link s ! l)) (link_disp1 n l s) \<and>
         smul (Fin (self_w s ! snd (self_link s ! l))) (link_disp0 n l s)
           = smul (Fin (- self_w s ! fst (self_link s ! l))) (link_disp1 n l s) \<and>
         fmul (Fin (self_w s ! snd (self_link s ! l))) (vnorm (link_disp0 n l s))
           = fmul (Fin (self_w s ! fst (self_link s ! l))) (vnorm (link_disp1 n l s))"
proof -
  let ?p0 = "fst (self_link s ! l)" and ?p1 = "snd (self_link s ! l)"
  obtain a1 a2 a3 where a: "a = (a1, a2, a3)" by (cases a)
  obtain b1 b2 b3 where b: "b = (b1, b2, b3)" by (cases b)
  have ne: "?p0 \<noteq> ?p1"
    using assms(3,4,5) by (auto simp: a b)
  have q: "link_p_01 l s = (Fin (a1 - b1), Fin (a2 - b2), Fin (a3 - b3))"
    by (simp add: link_p_01_def assms(3,4) a b fsub_def)
  have r: "sqrt ((a1 - b1) * (a1 - b1) + (a2 - b2) * (a2 - b2) + (a3 - b3) * (a3 - b3)) \<noteq> 0"
    using assms(5) unfolding a b by (rule distinct_points_apart)
  note e = link_correct_endpoints [OF assms(1,2) ne assms(6,7), of n]
  note d0 = link_disp_finite(1) [OF q r, of n]
  note d1 = link_disp_finite(2) [OF q r, of n]
  have w: "0 < self_w s ! ?p0" "0 < self_w s ! ?p1"
    using assms(1,2) by (simp_all add: eps_def)
  have v: "smul (Fin (self_w s ! ?p1)) (link_disp0 n l s)
      = smul (Fin (- self_w s ! ?p0)) (link_disp1 n l s)"
    by (simp add: d0 d1 Let_def)
  have "vnorm (smul (Fin (self_w s ! ?p1)) (link_disp0 n l s))
      = vnorm (smul (Fin (- self_w s ! ?p0)) (link_disp1 n l s))"
    by (simp only: v)
  then have m: "fmul (Fin (self_w s ! ?p1)) (vnorm (link_disp0 n l s))
      = fmul (Fin (self_w s ! ?p0)) (vnorm (link_disp1 n l s))"
    using w unfolding d0 d1 Let_def by (simp only: vnorm_smul) simp
  from e v m show ?thesis
    by simp
qed

theorem link_corrections_mass_weighted_witness:
  "eps < self_w (two_vertex_sim 1 (1 / 2) (Fin 2, Fin 0, Fin 0) vzero) ! 0 \<and>
   eps < self_w (two_vertex_sim 1 (1 / 2) (Fin 2, Fin 0, Fin 0) vzero) ! 1 \<and>
   (2 :: real, 0 :: real, 0 :: real) \<noteq> (0, 0, 0) \<and>
   fmul (Fin (self_w (two_vertex_sim 1 (1 / 2) (Fin 2, Fin 0, Fin 0) vzero) !
          snd (self_link (two_vertex_sim 1 (1 / 2) (Fin 2, Fin 0, Fin 0) vzero) ! 0)))
     (vnorm (link_disp0 0 0 (two_vertex_sim 1 (1 / 2) (Fin 2, Fin 0, Fin 0) vzero)))
   = fmul (Fin (self_w (two_vertex_sim 1 (1 / 2) (Fin 2, Fin 0, Fin 0) vzero) !
          fst (self_link (two_vertex_sim 1 (1 / 2) (Fin 2, Fin 0, Fin 0) vzero) ! 0)))
     (vnorm (link_disp1 0 0 (two_vertex_sim 1 (1 / 2) (Fin 2, Fin 0, Fin 0) vzero)))"
proof -
  let ?s = "two_vertex_sim 1 (1 / 2) (Fin 2, Fin 0, Fin 0) vzero"
  have 1: "eps < self_w ?s ! fst (self_link ?s ! 0)"
    and 2: "eps < self_w ?s ! snd (self_link ?s ! 0)"
    and 3: "self_p ?s ! fst (self_link ?s ! 0) = vfin (2, 0, 0)"
    and 4: "self_p ?s ! snd (self_link ?s ! 0) = vfin (0, 0, 0)"
    and 5: "(2 :: real, 0 :: real, 0 :: real) \<noteq> (0, 0, 0)"
    and 6: "fst (self_link ?s ! 0) < length (self_p ?s)"
    and 7: "snd (self_link ?s ! 0) < length (self_p ?s)"
    by (simp_all add: two_vertex_sim_def eps_def vzero_def)
  have 8: "eps < self_w ?s ! 0" "eps < self_w ?s ! 1"
    by (simp_all add: two_vertex_sim_def eps_def)
  from link_corrections_mass_weighted [OF 1 2 3 4 5 6 7, of 0] 8 5 show ?thesis
    by blast
qed

section \<open>Properties of the animation loop\<close>

lemma vnorm_z_axis: "vnorm (Fin 0, Fin 0, Fin c) = Fin \<bar>c\<bar>"
  by (simp add: vnorm_def)

lemma rod_first_frame:
  "self_x (frame_substeps (collider_at (0, 0, 0)) 0 rod_sim)
     = [(Fin 0, Fin 0, Fin (- 24 / 5)), (Fin 0, Fin 0, Fin (- 9 / 5))]"
  by (simp add: frame_substeps_def run_substep_def collider_at_def substep_unrolled
      rod_sim_def upt_small predict_stage_def predict_vertex_def const_mul_def const_div_def
      Let_def finalize_stage_def finalize_vertex_def solver_iteration_def link_stage_def
      link_correct_def collide_stage_def collide_vertex_def vzero_def gravity_def vnorm_z_axis
      fsub_def flt_def coll_r_def eps_def link_dp0_def link_dp1_def normalized_def)

lemma main_append:
  "main loc (fs @ gs) s =
     (fst (main loc fs s) @ fst (main loc gs (snd (main loc fs s))),
      snd (main loc gs (snd (main loc fs s))))"
  by (induction fs arbitrary: s) (simp_all add: Let_def)

lemma length_main: "length (fst (main loc fs s)) = length fs"
  by (induction fs arbitrary: s) (simp_all add: Let_def)

lemma animate_published:
  assumes "k < self_frame_num s"
  shows "fst (animate loc s) ! k = self_x (snd (main loc [0..<k] s))"
proof -
  have "[0..<self_frame_num s] = [0..<k] @ k # [Suc k..<self_frame_num s]"
    using assms by (metis less_imp_le_nat upt_add_eq_append upt_conv_Cons le0 le_add_diff_inverse add.left_neutral)
  then have "fst (animate loc s)
      = fst (main loc [0..<k] s) @ fst (main loc (k # [Suc k..<self_frame_num s]) (snd (main loc [0..<k] s)))"
    by (simp add: animate_def main_append)
  then show ?thesis
    by (simp add: nth_append length_main Let_def)
qed

lemma substep_coll_origin: "self_coll_origin (substep s) = self_coll_origin s"
proof -
  let ?r = "unrolled (self_solver_num s) (predict_stage s)"
  note a = static_fields [OF finalize_stage_frame(1) [of ?r]]
  note b = static_fields [OF static_no_p [OF no_p_unrolled [of "self_solver_num s" "predict_stage s"]]]
  note c = static_fields [OF predict_stage_frame(1) [of s]]
  show ?thesis
    by (simp add: substep_unrolled a b c)
qed

text \<open>
  C9, as stated: what a frame publishes are the positions after that frame's substeps.
  For the mesh of two free vertices at heights 5 and 8, with one substep of 1 s per
  frame, the first frame publishes the initial positions, while its substep moves the
  vertices to the heights -24/5 and -9/5.
\<close>

theorem published_before_substeps:
  "TiClothSimulation rod_phy 2 = Inr rod_sim \<and>
   fst (animate (collider_at (0, 0, 0)) rod_sim) ! 0
     = [(Fin 0, Fin 0, Fin 5), (Fin 0, Fin 0, Fin 8)] \<and>
   self_x (frame_substeps (collider_at (0, 0, 0)) 0 rod_sim)
     = [(Fin 0, Fin 0, Fin (- 24 / 5)), (Fin 0, Fin 0, Fin (- 9 / 5))] \<and>
   fst (animate (collider_at (0, 0, 0)) rod_sim) ! 0
     \<noteq> self_x (frame_substeps (collider_at (0, 0, 0)) 0 rod_sim)"
proof -
  have "(0::nat) < self_frame_num rod_sim"
    by (simp add: rod_sim_def)
  then have "fst (animate (collider_at (0, 0, 0)) rod_sim) ! 0
      = self_x (snd (main (collider_at (0, 0, 0)) [0..<0] rod_sim))"
    by (rule animate_published)
  then have 1: "fst (animate (collider_at (0, 0, 0)) rod_sim) ! 0
      = [(Fin 0, Fin 0, Fin 5), (Fin 0, Fin 0, Fin 8)]"
    by (simp add: rod_sim_def)
  show ?thesis
    by (simp add: 1 rod_first_frame rod_init)
qed

text \<open>
  C9, amended. Frame \<open>k\<close> of the animation loop publishes the positions \<open>x\<close> as they are
  when the frame starts, that is after the substeps of the frames before it (the initial
  positions in frame 0); the substeps of frame \<open>k\<close> run after the publication. Every
  substep runs the kernel on the state whose collider position has just been set from
  the external object's location, and the kernel leaves that position in place.
\<close>

theorem published_positions:
  assumes "k < self_frame_num s"
  shows "fst (animate loc s) ! k = self_x (snd (main loc [0..<k] s)) \<and>
         length (fst (animate loc s)) = self_frame_num s \<and>
         snd (main loc [0..<Suc k] s) = frame_substeps loc k (snd (main loc [0..<k] s)) \<and>
         frame_substeps loc k t = fold (run_substep loc k) [0..<self_substep_num t] t \<and>
         run_substep loc k step t = substep (t\<lparr>self_coll_origin := loc k step\<rparr>) \<and>
         self_coll_origin (run_substep loc k step t) = loc k step"
proof -
  have "snd (main loc [0..<Suc k] s) = frame_substeps loc k (snd (main loc [0..<k] s))"
    by (simp add: main_append Let_def)
  then show ?thesis
    using animate_published [OF assms]
    by (simp add: animate_def length_main frame_substeps_def run_substep_def substep_coll_origin)
qed

theorem published_positions_witness:
  "(1::nat) < self_frame_num rod_sim \<and>
   fst (animate (collider_at (0, 0, 0)) rod_sim) ! 1
     = self_x (snd (main (collider_at (0, 0, 0)) [0..<1] rod_sim)) \<and>
   fst (animate (collider_at (0, 0, 0)) rod_sim) ! 1
     = [(Fin 0, Fin 0, Fin (- 24 / 5)), (Fin 0, Fin 0, Fin (- 9 / 5))] \<and>
   length (fst (animate (collider_at (0, 0, 0)) rod_sim)) = 2 \<and>
   self_coll_origin (run_substep (collider_at (0, 0, 0)) 1 0 rod_sim) = (0, 0, 0)"
proof -
  have 0: "(1::nat) < self_frame_num rod_sim"
    and 1: "self_frame_num rod_sim = 2"
    by (simp_all add: rod_sim_def)
  have 2: "snd (main (collider_at (0, 0, 0)) [0..<1] rod_sim)
      = frame_substeps (collider_at (0, 0, 0)) 0 rod_sim"
    by (simp add: upt_small Let_def)
  from published_positions [OF 0, of "collider_at (0, 0, 0)" rod_sim 0] 0 1 show ?thesis
    by (simp add: 2 rod_first_frame collider_at_def substep_coll_origin)
qed

section \<open>Sphere collision\<close>

lemma collide_vertex_p:
  "self_p (collide_vertex vi s) =
     (if eps < self_w s ! vi
      then (self_p s)[vi := collide_point (self_coll_origin s) (self_p s ! vi)]
      else self_p s)"
  by (simp add: collide_vertex_def collide_point_def Let_def)

lemma collide_inv_step:
  assumes "collide_inv s n t"
  shows "collide_inv s (Suc n) (collide_vertex n t)"
proof -
  from assms have np: "no_p t = no_p s" and len: "length (self_p t) = length (self_p s)"
    and hi: "\<And>j. n \<le> j \<Longrightarrow> self_p t ! j = self_p s ! j"
    and lo: "\<And>j. j < n \<Longrightarrow> j < length (self_p s) \<Longrightarrow>
        self_p t ! j = (if eps < self_w s ! j
                        then collide_point (self_coll_origin s) (self_p s ! j)
                        else self_p s ! j)"
    by (simp_all add: collide_inv_def)
  note f = no_p_fields [OF np]
  let ?u = "collide_vertex n t"
  have up: "self_p ?u =
     (if eps < self_w s ! n
      then (self_p t)[n := collide_point (self_coll_origin s) (self_p s ! n)]
      else self_p t)"
    using hi [of n] by (simp add: collide_vertex_p f)
  have 1: "no_p ?u = no_p s"
    by (simp add: no_p_collide_vertex np)
  have 2: "length (self_p ?u) = length (self_p s)"
    by (simp add: len_p_collide_vertex len)
  have 3: "self_p ?u ! j = self_p s ! j" if "Suc n \<le> j" for j
    using that hi [of j] by (simp add: up)
  have 4: "self_p ?u ! j = (if eps < self_w s ! j
                        then collide_point (self_coll_origin s) (self_p s ! j)
                        else self_p s ! j)"
    if "j < Suc n" "j < length (self_p s)" for j
  proof (cases "j = n")
    case True
    then show ?thesis
      using that(2) hi [of n] len by (simp add: up)
  next
    case False
    with that have "j < n" by simp
    then show ?thesis
      using lo [OF _ that(2)] False by (simp add: up)
  qed
  show ?thesis
    unfolding collide_inv_def using 1 2 3 4 by blast
qed

lemma collide_inv_fold: "collide_inv s n (fold collide_vertex [0..<n] s)"
proof (induction n)
  case 0
  show ?case by (simp add: collide_inv_def)
next
  case (Suc n)
  then show ?case by (simp add: collide_inv_step)
qed

lemma collide_stage_nth:
  assumes "i < self_vertex_num s" and "i < length (self_p s)" and "eps < self_w s ! i"
  shows "self_p (collide_stage s) ! i = collide_point (self_coll_origin s) (self_p s ! i)"
  using collide_inv_fold [of s "self_vertex_num s"] assms
  by (simp add: collide_stage_def collide_inv_def)

lemma collide_point_finite:
  assumes "vnorm (vsub (vfin a) (vfin c)) = Fin r0" and "0 < r0"
  shows "collide_point c (vfin a) =
     (if r0 < coll_r
      then vadd (vfin a) (smul (Fin ((coll_r - r0) / r0)) (vsub (vfin a) (vfin c)))
      else vfin a)"
  using assms by (simp add: collide_point_def Let_def collide_dp_def fsub_def flt_def)

lemma pushed_to_surface:
  assumes "vnorm (vsub (vfin a) (vfin c)) = Fin r0" and "0 < r0" and "0 < R"
  defines "q \<equiv> vadd (vfin a) (smul (Fin ((R - r0) / r0)) (vsub (vfin a) (vfin c)))"
  shows "vsub q (vfin c) = smul (Fin (R / r0)) (vsub (vfin a) (vfin c))"
    and "vnorm (vsub q (vfin c)) = Fin R"
    and "vsub q (vfin a) = smul (Fin ((R - r0) / r0)) (vsub (vfin a) (vfin c))"
    and "vnorm (vsub q (vfin a)) = Fin \<bar>R - r0\<bar>"
proof -
  obtain a1 a2 a3 where a: "a = (a1, a2, a3)" by (cases a)
  obtain c1 c2 c3 where c: "c = (c1, c2, c3)" by (cases c)
  have d: "vsub (vfin a) (vfin c) = (Fin (a1 - c1), Fin (a2 - c2), Fin (a3 - c3))"
    by (simp add: a c fsub_def)
  have n: "vnorm (Fin (a1 - c1), Fin (a2 - c2), Fin (a3 - c3)) = Fin r0"
    using assms(1) by (simp add: d)
  have k: "x + (R - r0) * (x - y) / r0 - y = R * (x - y) / r0" for x y :: real
    using assms(2) by (simp add: field_simps)
  show 1: "vsub q (vfin c) = smul (Fin (R / r0)) (vsub (vfin a) (vfin c))"
    unfolding d by (simp add: q_def a c fsub_def k)
  show "vnorm (vsub q (vfin c)) = Fin R"
    unfolding 1 d using assms(2,3) by (simp only: vnorm_smul n) simp
  show 2: "vsub q (vfin a) = smul (Fin ((R - r0) / r0)) (vsub (vfin a) (vfin c))"
    unfolding d by (simp add: q_def a c fsub_def)
  show "vnorm (vsub q (vfin a)) = Fin \<bar>R - r0\<bar>"
    unfolding 2 d using assms(2) by (simp only: vnorm_smul n) simp
qed

text \<open>
  C4, as stated: after the collision sub-stage every vertex with \<open>w > eps\<close> is at distance
  at least the collision radius, minus a numerical tolerance, from the collider centre.
  A vertex with inverse mass 1 whose predicted position is the collider centre has
  distance 0 and penetration depth 1.01; the correction is \<open>(1.01 / 0) * 0\<close> in each
  coordinate, so the sub-stage writes NaN into its predicted position, and its distance
  from the centre is NaN: it is not at least the radius, and not at least the radius
  minus 1/100 or minus any other tolerance either.
\<close>

theorem vertex_at_collider_centre:
  "eps < self_w (two_vertex_sim 1 1 vzero (Fin 5, Fin 0, Fin 0)) ! 0 \<and>
   self_p (two_vertex_sim 1 1 vzero (Fin 5, Fin 0, Fin 0)) ! 0
     = vfin (self_coll_origin (two_vertex_sim 1 1 vzero (Fin 5, Fin 0, Fin 0))) \<and>
   self_p (collide_stage (two_vertex_sim 1 1 vzero (Fin 5, Fin 0, Fin 0))) ! 0 = vnan \<and>
   \<not> fge (vnorm (vsub (self_p (collide_stage (two_vertex_sim 1 1 vzero (Fin 5, Fin 0, Fin 0))) ! 0)
                 (vfin (self_coll_origin (two_vertex_sim 1 1 vzero (Fin 5, Fin 0, Fin 0))))))
          (Fin coll_r) \<and>
   \<not> fge (vnorm (vsub (self_p (collide_stage (two_vertex_sim 1 1 vzero (Fin 5, Fin 0, Fin 0))) ! 0)
                 (vfin (self_coll_origin (two_vertex_sim 1 1 vzero (Fin 5, Fin 0, Fin 0))))))
          (Fin (coll_r - 1 / 100))"
proof -
  let ?s = "two_vertex_sim 1 1 vzero (Fin 5, Fin 0, Fin 0)"
  have f: "self_w ?s ! 0 = 1" "self_p ?s ! 0 = vzero" "self_coll_origin ?s = (0, 0, 0)"
    "(0::nat) < self_vertex_num ?s" "0 < length (self_p ?s)"
    by (simp_all add: two_vertex_sim_def)
  have w: "eps < self_w ?s ! 0"
    by (simp add: f eps_def)
  have "self_p (collide_stage ?s) ! 0 = collide_point (self_coll_origin ?s) (self_p ?s ! 0)"
    using f(4,5) w by (rule collide_stage_nth)
  also have "\<dots> = collide_point (0, 0, 0) vzero"
    by (simp only: f)
  also have "\<dots> = vnan"
    by (simp add: collide_point_def Let_def collide_dp_def vzero_def vnan_def vnorm_axis
        fsub_def flt_def coll_r_def)
  finally have p: "self_p (collide_stage ?s) ! 0 = vnan" .
  have "\<not> fge (vnorm (vsub vnan (vfin (0, 0, 0)))) (Fin r)" for r
    by (simp add: vnan_def vnorm_def fsub_def fge_def)
  then show ?thesis
    using w by (simp only: p f) (simp add: vzero_def)
qed

text \<open>
  C4, amended. Let a vertex with \<open>w > eps\<close> have a finite predicted position at distance
  \<open>r0 > 0\<close> from the collider centre before the collision sub-stage. After the sub-stage
  its distance from the centre is at least the collision radius minus the tolerance
  \<open>tol\<close>, for every \<open>tol \<ge> 0\<close>. If it was penetrating (\<open>r0 < coll_r\<close>), its offset from the
  centre has been scaled by \<open>coll_r / r0\<close> (a radial push outward), it lies at distance
  \<open>coll_r\<close>, and it has moved by the penetration depth \<open>coll_r - r0\<close>; otherwise it has not
  moved. (The scalars of this model do not round, so here the bound holds for the
  tolerance 0 as well and the pushed vertex is exactly on the surface; the 32-bit floats
  of the kernel round, which is what the tolerance of the statement is for.)
\<close>

theorem collision_containment:
  assumes "eps < self_w s ! i" and "i < self_vertex_num s" and "i < length (self_p s)"
    and "self_p s ! i = vfin a"
    and "vnorm (vsub (vfin a) (vfin (self_coll_origin s))) = Fin r0" and "0 < r0"
    and "0 \<le> tol"
  shows "fge (vnorm (vsub (self_p (collide_stage s) ! i) (vfin (self_coll_origin s))))
           (Fin (coll_r - tol)) \<and>
         (r0 < coll_r \<longrightarrow>
            vsub (self_p (collide_stage s) ! i) (vfin (self_coll_origin s))
              = smul (Fin (coll_r / r0)) (vsub (vfin a) (vfin (self_coll_origin s))) \<and>
            vnorm (vsub (self_p (collide_stage s) ! i) (vfin (self_coll_origin s))) = Fin coll_r \<and>
            vnorm (vsub (self_p (collide_stage s) ! i) (vfin a)) = Fin (coll_r - r0)) \<and>
         (coll_r \<le> r0 \<longrightarrow> self_p (collide_stage s) ! i = vfin a)"
proof -
  let ?c = "self_coll_origin s"
  have R: "0 < coll_r"
    by (simp add: coll_r_def)
  have "self_p (collide_stage s) ! i = collide_point ?c (self_p s ! i)"
    using assms(2,3,1) by (rule collide_stage_nth)
  then have p: "self_p (collide_stage s) ! i =
     (if r0 < coll_r
      then vadd (vfin a) (smul (Fin ((coll_r - r0) / r0)) (vsub (vfin a) (vfin ?c)))
      else vfin a)"
    by (simp only: assms(4) collide_point_finite [OF assms(5,6)])
  note s = pushed_to_surface [OF assms(5,6) R]
  show ?thesis
  proof (cases "r0 < coll_r")
    case True
    then show ?thesis
      using s assms(7) by (simp add: p fge_def) (auto simp: not_less)
  next
    case False
    then show ?thesis
      using assms(5,7) by (simp add: p fge_def) (auto simp: not_less)
  qed
qed

theorem collision_containment_witness:
  "eps < self_w (two_vertex_sim 1 1 (Fin (1 / 2), Fin 0, Fin 0) (Fin 5, Fin 0, Fin 0)) ! 0 \<and>
   self_p (two_vertex_sim 1 1 (Fin (1 / 2), Fin 0, Fin 0) (Fin 5, Fin 0, Fin 0)) ! 0
     = vfin (1 / 2, 0, 0) \<and>
   vnorm (vsub (vfin (1 / 2, 0, 0))
      (vfin (self_coll_origin (two_vertex_sim 1 1 (Fin (1 / 2), Fin 0, Fin 0) (Fin 5, Fin 0, Fin 0)))))
     = Fin (1 / 2) \<and>
   (0::real) < 1 / 2 \<and> (0::real) \<le> 1 / 1000 \<and> (1 / 2 :: real) < coll_r \<and>
   fge (vnorm (vsub
       (self_p (collide_stage (two_vertex_sim 1 1 (Fin (1 / 2), Fin 0, Fin 0) (Fin 5, Fin 0, Fin 0))) ! 0)
       (vfin (self_coll_origin (two_vertex_sim 1 1 (Fin (1 / 2), Fin 0, Fin 0) (Fin 5, Fin 0, Fin 0))))))
     (Fin (coll_r - 1 / 1000)) \<and>
   vnorm (vsub
       (self_p (collide_stage (two_vertex_sim 1 1 (Fin (1 / 2), Fin 0, Fin 0) (Fin 5, Fin 0, Fin 0))) ! 0)
       (vfin (self_coll_origin (two_vertex_sim 1 1 (Fin (1 / 2), Fin 0, Fin 0) (Fin 5, Fin 0, Fin 0)))))
     = Fin coll_r \<and>
   eps < self_w (two_vertex_sim 1 1 (Fin (1 / 2), Fin 0, Fin 0) (Fin 5, Fin 0, Fin 0)) ! 1 \<and>
   self_p (two_vertex_sim 1 1 (Fin (1 / 2), Fin 0, Fin 0) (Fin 5, Fin 0, Fin 0)) ! 1
     = vfin (5, 0, 0) \<and>
   vnorm (vsub (vfin (5, 0, 0))
      (vfin (self_coll_origin (two_vertex_sim 1 1 (Fin (1 / 2), Fin 0, Fin 0) (Fin 5, Fin 0, Fin 0)))))
     = Fin 5 \<and>
   coll_r \<le> 5 \<and>
   self_p (collide_stage (two_vertex_sim 1 1 (Fin (1 / 2), Fin 0, Fin 0) (Fin 5, Fin 0, Fin 0))) ! 1
     = vfin (5, 0, 0)"
proof -
  let ?s = "two_vertex_sim 1 1 (Fin (1 / 2), Fin 0, Fin 0) (Fin 5, Fin 0, Fin 0)"
  have 1: "eps < self_w ?s ! 0" and 2: "0 < self_vertex_num ?s" and 3: "0 < length (self_p ?s)"
    and 4: "self_p ?s ! 0 = vfin (1 / 2, 0, 0)"
    and 5: "vnorm (vsub (vfin (1 / 2, 0, 0)) (vfin (self_coll_origin ?s))) = Fin (1 / 2)"
    and 6: "(0::real) < 1 / 2" and 7: "(1 / 2 :: real) < coll_r"
    by (simp_all add: two_vertex_sim_def eps_def fsub_def vnorm_axis coll_r_def)
  have a: "eps < self_w ?s ! 1" and b: "1 < self_vertex_num ?s" and c: "1 < length (self_p ?s)"
    and d: "self_p ?s ! 1 = vfin (5, 0, 0)"
    and e: "vnorm (vsub (vfin (5, 0, 0)) (vfin (self_coll_origin ?s))) = Fin 5"
    and f: "(0::real) < 5" and g: "coll_r \<le> 5"
    by (simp_all add: two_vertex_sim_def eps_def fsub_def vnorm_axis coll_r_def)
  have t: "(0::real) \<le> 1 / 1000"
    by simp
  from collision_containment [OF 1 2 3 4 5 6 t] collision_containment [OF a b c d e f t]
    1 4 5 6 7 a d e g t
  show ?thesis
    by blast
qed

section \<open>Degenerate geometry\<close>

lemma fadd_NaN [simp]: "fadd a NaN = NaN"
  by (cases a) simp_all

lemma fmul_NaN [simp]: "fmul a NaN = NaN"
  by (cases a) simp_all

lemma normalized_zero: "normalized (Fin 0, Fin 0, Fin 0) = vnan"
  by (simp add: normalized_def vnorm_def vnan_def)

lemma link_dp_zero_length:
  "link_dp0 w (Fin 0, Fin 0, Fin 0) len = vnan" "link_dp1 w (Fin 0, Fin 0, Fin 0) len = vnan"
  by (simp_all add: link_dp0_def link_dp1_def normalized_zero) (simp_all add: vnan_def)

lemma vsub_self: "vsub (vfin a) (vfin a) = (Fin 0, Fin 0, Fin 0)"
  by (cases a) (simp add: fsub_def)

lemma vadd_vnan: "vadd q (smul (Fin k) vnan) = vnan"
  by (cases q) (simp add: vnan_def)

lemma link_correct_zero_length:
  assumes "self_p s ! fst (self_link s ! l) = vfin a" and "self_p s ! snd (self_link s ! l) = vfin a"
    and "fst (self_link s ! l) \<noteq> snd (self_link s ! l)"
    and "fst (self_link s ! l) < length (self_p s)" and "snd (self_link s ! l) < length (self_p s)"
  shows "eps < self_w s ! fst (self_link s ! l) \<Longrightarrow>
      self_p (link_correct n l s) ! fst (self_link s ! l) = vnan"
    and "eps < self_w s ! snd (self_link s ! l) \<Longrightarrow>
      self_p (link_correct n l s) ! snd (self_link s ! l) = vnan"
  using assms
  by (simp_all add: link_correct_def Let_def vsub_self link_dp_zero_length vadd_vnan)

lemma collide_point_centre: "collide_point c (vfin c) = vnan"
  by (cases c)
    (simp add: collide_point_def Let_def collide_dp_def vnorm_def fsub_def flt_def coll_r_def
      vnan_def)

lemma collide_vertex_centre:
  assumes "eps < self_w s ! vi" and "self_p s ! vi = vfin (self_coll_origin s)"
    and "vi < length (self_p s)"
  shows "self_p (collide_vertex vi s) ! vi = vnan"
  using assms by (simp add: collide_vertex_p collide_point_centre)

text \<open>
  The tether correction divides by the rest length and by the distance. The first
  quotient is only compared with the threshold; the comparison fails whenever the
  distance is 0, so the second division is never by zero.
\<close>

lemma tether_test_needs_distance:
  assumes "fgt (fdiv (fsub (Fin r0) (Fin len)) (Fin len)) (Fin tether_give)" and "0 \<le> r0"
  shows "r0 \<noteq> 0"
proof
  assume "r0 = 0"
  with assms(1) show False
    by (cases "len = 0") (simp_all add: fsub_def tether_give_def)
qed

lemma tether_pair_coincident:
  assumes "self_p s ! vi = vfin (self_attach_pos s ! att)"
  shows "tether_pair vi att s = s"
proof -
  have "vnorm (vsub (self_p s ! vi) (vfin (self_attach_pos s ! att))) = Fin 0"
    by (simp add: assms vsub_self vnorm_def)
  moreover have "\<not> fgt (fdiv (fsub (Fin 0) (Fin len)) (Fin len)) (Fin tether_give)" for len
    using tether_test_needs_distance [of 0 len] by auto
  ultimately show ?thesis
    by (simp add: tether_pair_def Let_def)
qed

lemma tether_pair_finite:
  assumes "self_p s ! vi = vfin a"
  shows "vis_fin (self_p (tether_pair vi att s) ! vi)"
proof -
  obtain a1 a2 a3 where a: "a = (a1, a2, a3)" by (cases a)
  obtain c1 c2 c3 where c: "self_attach_pos s ! att = (c1, c2, c3)"
    by (cases "self_attach_pos s ! att")
  let ?r = "sqrt ((a1 - c1) * (a1 - c1) + (a2 - c2) * (a2 - c2) + (a3 - c3) * (a3 - c3))"
  let ?len = "self_tether_len s ! vi ! att"
  have p: "self_p s ! vi = (Fin a1, Fin a2, Fin a3)"
    by (simp add: assms a)
  have d: "vsub (Fin a1, Fin a2, Fin a3) (vfin (self_attach_pos s ! att))
      = (Fin (a1 - c1), Fin (a2 - c2), Fin (a3 - c3))"
    by (simp add: c fsub_def)
  have n: "vnorm (Fin (a1 - c1), Fin (a2 - c2), Fin (a3 - c3)) = Fin ?r"
    by (rule vnorm_vfin)
  have r: "0 \<le> ?r"
    by simp
  show ?thesis
  proof (cases "eps < self_w s ! vi \<and> fgt (fdiv (fsub (Fin ?r) (Fin ?len)) (Fin ?len)) (Fin tether_give)")
    case True
    then have "?r \<noteq> 0"
      using tether_test_needs_distance [OF _ r] by blast
    then show ?thesis
      using True
      by (cases "vi < length (self_p s)")
        (simp_all add: tether_pair_def Let_def p d n tether_dp_def fsub_def list_update_beyond)
  next
    case False
    then have "tether_pair vi att s = s"
      by (auto simp: tether_pair_def Let_def p d n)
    then show ?thesis
      by (simp add: p)
  qed
qed

text \<open>
  C7, as stated: in each of the three degenerate cases the corresponding sub-stage divides
  by zero and writes the non-finite result into the predicted position. For the tether
  sub-stage this fails. With both vertices exactly at the attachment point, vertex 0
  (tether rest length 0) gives the stretch \<open>0 / 0 = NaN\<close> and vertex 1 (rest length 1) gives
  the stretch \<open>- 1\<close>; neither exceeds the threshold, so the sub-stage writes nothing and
  the predicted positions stay finite.
\<close>

theorem tether_at_attachment_point_writes_nothing:
  "eps < self_w (tether_sim vzero vzero) ! 0 \<and>
   eps < self_w (tether_sim vzero vzero) ! 1 \<and>
   self_p (tether_sim vzero vzero) ! 0 = vfin (self_attach_pos (tether_sim vzero vzero) ! 0) \<and>
   self_p (tether_sim vzero vzero) ! 1 = vfin (self_attach_pos (tether_sim vzero vzero) ! 0) \<and>
   fdiv (fsub (Fin 0) (Fin (self_tether_len (tether_sim vzero vzero) ! 0 ! 0)))
        (Fin (self_tether_len (tether_sim vzero vzero) ! 0 ! 0)) = NaN \<and>
   tether_stage (tether_sim vzero vzero) = tether_sim vzero vzero \<and>
   vis_fin (self_p (tether_stage (tether_sim vzero vzero)) ! 0) \<and>
   vis_fin (self_p (tether_stage (tether_sim vzero vzero)) ! 1)"
proof -
  let ?s = "tether_sim vzero vzero"
  have f: "self_vertex_num ?s = 2" "self_attach_num ?s = 1"
    by (simp_all add: tether_sim_def)
  have 0: "tether_pair 0 0 ?s = ?s"
    by (rule tether_pair_coincident) (simp add: tether_sim_def vzero_def)
  have 1: "tether_pair (Suc 0) 0 ?s = ?s"
    by (rule tether_pair_coincident) (simp add: tether_sim_def vzero_def)
  have t: "tether_stage ?s = ?s"
    by (simp add: tether_stage_def f upt_small 0 1)
  show ?thesis
    unfolding t by (simp add: tether_sim_def eps_def vzero_def fsub_def)
qed

text \<open>
  C7, amended. A link whose two endpoints have the same finite predicted position (a
  zero-length link) makes the link sub-stage normalise the zero vector, \<open>(1 / 0) * 0\<close>, and
  write NaN into the predicted position of each endpoint with \<open>w > eps\<close>. A vertex with
  \<open>w > eps\<close> exactly at the collider centre makes the collision sub-stage compute
  \<open>(1.01 / 0) * 0\<close> and write NaN into its predicted position. Neither sub-stage guards the
  divisor. The tether sub-stage is different: applied to a finite predicted position it
  leaves a finite one, and for a vertex exactly at the attachment point it writes
  nothing; its division by the distance is reached only when the stretch test has
  passed, which needs a non-zero distance, and its division by the rest length (which
  can be zero) only feeds that test.
\<close>

theorem degenerate_geometry:
  assumes "self_p s ! fst (self_link s ! l) = vfin a"
    and "self_p s ! snd (self_link s ! l) = vfin a"
    and "fst (self_link s ! l) \<noteq> snd (self_link s ! l)"
    and "fst (self_link s ! l) < length (self_p s)" and "snd (self_link s ! l) < length (self_p s)"
    and "eps < self_w s ! fst (self_link s ! l)"
    and "eps < self_w t ! vi" and "self_p t ! vi = vfin (self_coll_origin t)"
    and "vi < length (self_p t)"
    and "self_p u ! vj = vfin b"
  shows "self_p (link_correct n l s) ! fst (self_link s ! l) = vnan \<and>
         (eps < self_w s ! snd (self_link s ! l) \<longrightarrow>
            self_p (link_correct n l s) ! snd (self_link s ! l) = vnan) \<and>
         self_p (collide_vertex vi t) ! vi = vnan \<and>
         vis_fin (self_p (tether_pair vj att u) ! vj) \<and>
         (b = self_attach_pos u ! att \<longrightarrow> tether_pair vj att u = u)"
proof -
  note l = link_correct_zero_length [OF assms(1-5), of n]
  note c = collide_vertex_centre [OF assms(7-9)]
  note f = tether_pair_finite [OF assms(10), of att]
  have "tether_pair vj att u = u" if "b = self_attach_pos u ! att"
    using assms(10) that by (simp add: tether_pair_coincident)
  with l(1) [OF assms(6)] l(2) c f show ?thesis
    by blast
qed

text \<open>
  A run that reaches the degenerate cases: a mesh with two coincident vertices joined by
  an edge. The constructor stores the edge with rest length 0, the predict stage moves
  both vertices to the same predicted position, and the first frame ends with NaN in
  every coordinate of both positions.
\<close>

lemma seam_init: "TiClothSimulation seam_phy 2 = Inr seam_sim"
  by (simp add: TiClothSimulation_def seam_phy_def seam_cloth_def allocate_def Let_def
     initialize_def set_edges_def set_faces_def set_edge_def
     init_vertex_def upt_small vzero_def seam_sim_def)

lemma seam_predicted:
  "self_p (predict_stage (seam_sim\<lparr>self_coll_origin := c\<rparr>))
     = [(Fin 0, Fin 0, Fin (- 24 / 5)), (Fin 0, Fin 0, Fin (- 24 / 5))]"
  "self_w (predict_stage (seam_sim\<lparr>self_coll_origin := c\<rparr>)) = [1, 1]"
  "self_link (predict_stage (seam_sim\<lparr>self_coll_origin := c\<rparr>)) = [(0, 1)]"
  "self_coll_origin (predict_stage (seam_sim\<lparr>self_coll_origin := c\<rparr>)) = c"
  by (simp_all add: predict_stage_def predict_vertex_def const_mul_def seam_sim_def Let_def
      upt_small vzero_def gravity_def)

lemma seam_first_frame:
  "self_x (frame_substeps (collider_at (0, 0, 9)) 0 seam_sim) = [vnan, vnan]"
  by (simp add: frame_substeps_def run_substep_def collider_at_def substep_unrolled
      seam_sim_def upt_small predict_stage_def predict_vertex_def const_mul_def const_div_def
      Let_def finalize_stage_def finalize_vertex_def solver_iteration_def link_stage_def link_correct_def
      collide_stage_def collide_vertex_def vzero_def gravity_def vnorm_def
      fsub_def flt_def coll_r_def eps_def link_dp0_def link_dp1_def normalized_def vnan_def)

theorem degenerate_geometry_witness:
  "TiClothSimulation seam_phy 2 = Inr seam_sim \<and>
   self_p (predict_stage (seam_sim\<lparr>self_coll_origin := (0, 0, 9)\<rparr>)) ! 0 = vfin (0, 0, - 24 / 5) \<and>
   self_p (predict_stage (seam_sim\<lparr>self_coll_origin := (0, 0, 9)\<rparr>)) ! 1 = vfin (0, 0, - 24 / 5) \<and>
   eps < self_w (predict_stage (seam_sim\<lparr>self_coll_origin := (0, 0, 9)\<rparr>)) ! 0 \<and>
   self_p (predict_stage (seam_sim\<lparr>self_coll_origin := (0, 0, - 24 / 5)\<rparr>)) ! 0
     = vfin (self_coll_origin (predict_stage (seam_sim\<lparr>self_coll_origin := (0, 0, - 24 / 5)\<rparr>))) \<and>
   self_p (tether_sim vzero vzero) ! 1 = vfin (0, 0, 0) \<and>
   self_p (link_correct 0 0 (predict_stage (seam_sim\<lparr>self_coll_origin := (0, 0, 9)\<rparr>))) ! 0 = vnan \<and>
   self_p (link_correct 0 0 (predict_stage (seam_sim\<lparr>self_coll_origin := (0, 0, 9)\<rparr>))) ! 1 = vnan \<and>
   self_p (collide_vertex 0 (predict_stage (seam_sim\<lparr>self_coll_origin := (0, 0, - 24 / 5)\<rparr>))) ! 0
     = vnan \<and>
   vis_fin (self_p (tether_pair 1 0 (tether_sim vzero vzero)) ! 1) \<and>
   tether_pair 1 0 (tether_sim vzero vzero) = tether_sim vzero vzero \<and>
   self_x (frame_substeps (collider_at (0, 0, 9)) 0 seam_sim) = [vnan, vnan]"
proof -
  let ?s = "predict_stage (seam_sim\<lparr>self_coll_origin := (0, 0, 9)\<rparr>)"
  let ?t = "predict_stage (seam_sim\<lparr>self_coll_origin := (0, 0, - 24 / 5)\<rparr>)"
  let ?u = "tether_sim vzero vzero"
  have 1: "self_p ?s ! fst (self_link ?s ! 0) = vfin (0, 0, - 24 / 5)"
    and 2: "self_p ?s ! snd (self_link ?s ! 0) = vfin (0, 0, - 24 / 5)"
    and 3: "fst (self_link ?s ! 0) \<noteq> snd (self_link ?s ! 0)"
    and 4: "fst (self_link ?s ! 0) < length (self_p ?s)"
    and 5: "snd (self_link ?s ! 0) < length (self_p ?s)"
    and 6: "eps < self_w ?s ! fst (self_link ?s ! 0)"
    and w1: "eps < self_w ?s ! snd (self_link ?s ! 0)"
    and 7: "eps < self_w ?t ! 0"
    and 8: "self_p ?t ! 0 = vfin (self_coll_origin ?t)"
    and 9: "0 < length (self_p ?t)"
    by (simp_all add: seam_predicted eps_def)
  have 10: "self_p ?u ! 1 = vfin (0, 0, 0)"
    and 11: "(0, 0, 0) = self_attach_pos ?u ! 0"
    by (simp_all add: tether_sim_def vzero_def)
  have i: "fst (self_link ?s ! 0) = 0" "snd (self_link ?s ! 0) = 1"
    by (simp_all add: seam_predicted)
  note d = degenerate_geometry [OF 1 2 3 4 5 6 7 8 9 10, of 0 0]
  from d w1 11 have "self_p (link_correct 0 0 ?s) ! fst (self_link ?s ! 0) = vnan"
    "self_p (link_correct 0 0 ?s) ! snd (self_link ?s ! 0) = vnan"
    "self_p (collide_vertex 0 ?t) ! 0 = vnan"
    "vis_fin (self_p (tether_pair 1 0 ?u) ! 1)"
    "tether_pair 1 0 ?u = ?u"
    by blast+
  then show ?thesis
    using 1 2 6 8 10 seam_init seam_first_frame unfolding i by simp
qed

section \<open>Corrections and inverse mass\<close>

text \<open>
  Scaling by a positive finite factor goes through products and quotients of scalars,
  whatever the other values are.
\<close>

lemma fmul_pos_commute:
  assumes "0 < w"
  shows "fmul (Fin k) (fmul (Fin w) X) = fmul (Fin w) (fmul (Fin k) X)"
  using assms by (cases X) (auto simp: zero_less_mult_iff mult_less_0_iff)

lemma fdiv_pos_scale:
  assumes "0 < w"
  shows "fdiv (fmul (Fin w) X) Y = fmul (Fin w) (fdiv X Y)"
  using assms
  by (cases X; cases Y) (auto simp: zero_less_mult_iff mult_less_0_iff)

lemma fmul_unit_scale:
  assumes "0 < w"
  shows "fmul (fmul (fmul (Fin c) (Fin w)) D) n
    = fmul (Fin w) (fmul (fmul (fmul (Fin c) (Fin 1)) D) n)"
  using assms
  by (cases D; cases n) (auto simp: zero_less_mult_iff mult_less_0_iff)

lemma smul_vzero: "smul (Fin k) vzero = vzero"
  by (simp add: vzero_def)

lemma vadd_vzero: "vadd q vzero = q"
proof -
  have "fadd a (Fin 0) = a" for a
    by (cases a) simp_all
  then show ?thesis
    by (cases q) (simp add: vzero_def)
qed

lemma tether_dp_scaled:
  assumes "0 < w"
  shows "smul (Fin k) (tether_dp w dd d dst) = smul (Fin w) (smul (Fin k) (tether_dp 1 dd d dst))"
proof -
  obtain d1 d2 d3 where d: "d = (d1, d2, d3)" by (cases d)
  show ?thesis
    unfolding d tether_dp_def
    by (simp only: smul.simps vdivs.simps fmul_unit_scale [OF assms, of "- 0.5"]
        fdiv_pos_scale [OF assms] fmul_pos_commute [OF assms])
qed

lemma link_dp_scaled:
  assumes "0 < w"
  shows "smul (Fin k) (link_dp0 w q len) = smul (Fin w) (smul (Fin k) (link_dp0 1 q len))"
    and "smul (Fin k) (link_dp1 w q len) = smul (Fin w) (smul (Fin k) (link_dp1 1 q len))"
proof -
  obtain n1 n2 n3 where n: "normalized q = (n1, n2, n3)" by (cases "normalized q")
  show "smul (Fin k) (link_dp0 w q len) = smul (Fin w) (smul (Fin k) (link_dp0 1 q len))"
    unfolding link_dp0_def n
    by (simp only: smul.simps fmul_unit_scale [OF assms, of "- 0.5"] fmul_pos_commute [OF assms])
  show "smul (Fin k) (link_dp1 w q len) = smul (Fin w) (smul (Fin k) (link_dp1 1 q len))"
    unfolding link_dp1_def n
    by (simp only: smul.simps fmul_unit_scale [OF assms, of "0.5"] fmul_pos_commute [OF assms])
qed

lemma tether_pair_scaled:
  assumes "eps < w'" and "vi < length (self_w s)" and "vi < length (self_p s)"
  shows "self_p (tether_pair vi att (s\<lparr>self_w := (self_w s)[vi := w']\<rparr>)) ! vi
     = vadd (self_p s ! vi) (smul (Fin w') (tether_unit vi att s))"
proof -
  have w: "0 < w'"
    using assms(1) by (simp add: eps_def)
  show ?thesis
    using assms
    by (simp add: tether_pair_def tether_unit_def Let_def vadd_vzero tether_dp_scaled [OF w]
        smul_vzero)
qed

lemma link_correct_fst:
  assumes "eps < self_w s ! fst (self_link s ! l)"
    and "fst (self_link s ! l) \<noteq> snd (self_link s ! l)"
    and "fst (self_link s ! l) < length (self_p s)"
  shows "self_p (link_correct n l s) ! fst (self_link s ! l)
      = vadd (self_p s ! fst (self_link s ! l)) (link_disp0 n l s)"
  using assms
  by (simp add: link_correct_def Let_def link_disp0_def link_p_01_def)

lemma link_correct_snd:
  assumes "eps < self_w s ! snd (self_link s ! l)"
    and "fst (self_link s ! l) \<noteq> snd (self_link s ! l)"
    and "snd (self_link s ! l) < length (self_p s)"
  shows "self_p (link_correct n l s) ! snd (self_link s ! l)
      = vadd (self_p s ! snd (self_link s ! l)) (link_disp1 n l s)"
  using assms
  by (simp add: link_correct_def Let_def link_disp1_def link_p_01_def)

lemma link_unit_finite:
  assumes "link_p_01 l s = (Fin a, Fin b, Fin c)" and "sqrt (a * a + b * b + c * c) \<noteq> 0"
  shows "link_unit0 n l s =
      (let r = sqrt (a * a + b * b + c * c);
           k = kp_of (self_link_k s ! l) n * (- 0.5 * (r - self_link_len s ! l))
       in (Fin (k * (1 / r * a)), Fin (k * (1 / r * b)), Fin (k * (1 / r * c))))"
    and "link_unit1 n l s =
      (let r = sqrt (a * a + b * b + c * c);
           k = kp_of (self_link_k s ! l) n * (0.5 * (r - self_link_len s ! l))
       in (Fin (k * (1 / r * a)), Fin (k * (1 / r * b)), Fin (k * (1 / r * c))))"
  using assms(2)
  by (simp_all add: link_unit0_def link_unit1_def assms(1) link_dp0_def link_dp1_def
      normalized_vfin vnorm_vfin fsub_def Let_def)

lemma link_correct_scaled:
  assumes "eps < w'"
    and "fst (self_link s ! l) \<noteq> snd (self_link s ! l)"
    and "fst (self_link s ! l) < length (self_p s)" and "snd (self_link s ! l) < length (self_p s)"
    and "fst (self_link s ! l) < length (self_w s)" and "snd (self_link s ! l) < length (self_w s)"
  shows "self_p (link_correct n l (s\<lparr>self_w := (self_w s)[fst (self_link s ! l) := w']\<rparr>))
           ! fst (self_link s ! l)
         = vadd (self_p s ! fst (self_link s ! l)) (smul (Fin w') (link_unit0 n l s))"
    and "self_p (link_correct n l (s\<lparr>self_w := (self_w s)[snd (self_link s ! l) := w']\<rparr>))
           ! snd (self_link s ! l)
         = vadd (self_p s ! snd (self_link s ! l)) (smul (Fin w') (link_unit1 n l s))"
proof -
  let ?p0 = "fst (self_link s ! l)" and ?p1 = "snd (self_link s ! l)"
  let ?s0 = "s\<lparr>self_w := (self_w s)[?p0 := w']\<rparr>"
  let ?s1 = "s\<lparr>self_w := (self_w s)[?p1 := w']\<rparr>"
  have w: "0 < w'"
    using assms(1) by (simp add: eps_def)
  have "self_p (link_correct n l ?s0) ! fst (self_link ?s0 ! l)
      = vadd (self_p ?s0 ! fst (self_link ?s0 ! l)) (link_disp0 n l ?s0)"
    by (rule link_correct_fst) (use assms in simp_all)
  moreover have "link_disp0 n l ?s0 = smul (Fin w') (link_unit0 n l s)"
    using assms(5)
    by (simp add: link_disp0_def link_unit0_def link_p_01_def link_dp_scaled(1) [OF w])
  ultimately show "self_p (link_correct n l ?s0) ! ?p0
      = vadd (self_p s ! ?p0) (smul (Fin w') (link_unit0 n l s))"
    by simp
  have "self_p (link_correct n l ?s1) ! snd (self_link ?s1 ! l)
      = vadd (self_p ?s1 ! snd (self_link ?s1 ! l)) (link_disp1 n l ?s1)"
    by (rule link_correct_snd) (use assms in simp_all)
  moreover have "link_disp1 n l ?s1 = smul (Fin w') (link_unit1 n l s)"
    using assms(6)
    by (simp add: link_disp1_def link_unit1_def link_p_01_def link_dp_scaled(2) [OF w])
  ultimately show "self_p (link_correct n l ?s1) ! ?p1
      = vadd (self_p s ! ?p1) (smul (Fin w') (link_unit1 n l s))"
    by simp
qed

text \<open>
  C6, as stated: every correction of the relaxation stage is scaled by the inverse mass of
  the vertex it moves. The collision correction is not: a vertex at distance 1/2 from
  the collider centre is moved by the whole penetration depth 0.51 with inverse mass 1/2
  as with inverse mass 1, which is not half of the displacement at inverse mass 1.
\<close>

theorem collision_correction_not_scaled_by_w:
  "collide_disp 0 (two_vertex_sim (1 / 2) 1 (Fin (1 / 2), Fin 0, Fin 0) vzero)
     = (Fin (51 / 100), Fin 0, Fin 0) \<and>
   collide_disp 0 (two_vertex_sim 1 1 (Fin (1 / 2), Fin 0, Fin 0) vzero)
     = (Fin (51 / 100), Fin 0, Fin 0) \<and>
   collide_disp 0 (two_vertex_sim (1 / 2) 1 (Fin (1 / 2), Fin 0, Fin 0) vzero)
     \<noteq> smul (Fin (1 / 2)) (collide_disp 0 (two_vertex_sim 1 1 (Fin (1 / 2), Fin 0, Fin 0) vzero))"
  by (simp add: collide_disp_def collide_vertex_def two_vertex_sim_def Let_def eps_def
      coll_r_def collide_dp_def vnorm_axis fsub_def flt_def vzero_def)

text \<open>
  C6, amended. A pinned vertex (\<open>w = 0\<close>) is left unmoved by each of the three correction
  sub-stages. What the tether pass adds to the predicted position of its vertex, and
  what the link pass adds to each endpoint of its link, is the inverse mass of that
  vertex times a vector that does not depend on it: in any state, with any inverse mass
  \<open>w' > eps\<close> put in the place of the vertex's own, the pass adds \<open>w'\<close> times the
  displacement for inverse mass 1. The collision pass is not scaled: for a vertex with
  \<open>w > eps\<close> it writes \<open>collide_point\<close> of the collider position and the predicted
  position, where no inverse mass occurs, and the result is the same with any other
  \<open>w' > eps\<close>.
\<close>

theorem corrections_and_inverse_mass:
  assumes "self_w u ! i = 0"
    and "eps < w'"
    and "vi < length (self_w s)" and "vi < length (self_p s)"
    and "fst (self_link t ! l) \<noteq> snd (self_link t ! l)"
    and "fst (self_link t ! l) < length (self_p t)" and "snd (self_link t ! l) < length (self_p t)"
    and "fst (self_link t ! l) < length (self_w t)" and "snd (self_link t ! l) < length (self_w t)"
    and "eps < self_w c ! ci" and "ci < length (self_p c)"
  shows "self_p (tether_stage u) ! i = self_p u ! i \<and>
         self_p (link_stage n u) ! i = self_p u ! i \<and>
         self_p (collide_stage u) ! i = self_p u ! i \<and>
         self_p (tether_pair vi att (s\<lparr>self_w := (self_w s)[vi := w']\<rparr>)) ! vi
           = vadd (self_p s ! vi) (smul (Fin w') (tether_unit vi att s)) \<and>
         self_p (link_correct n l (t\<lparr>self_w := (self_w t)[fst (self_link t ! l) := w']\<rparr>))
             ! fst (self_link t ! l)
           = vadd (self_p t ! fst (self_link t ! l)) (smul (Fin w') (link_unit0 n l t)) \<and>
         self_p (link_correct n l (t\<lparr>self_w := (self_w t)[snd (self_link t ! l) := w']\<rparr>))
             ! snd (self_link t ! l)
           = vadd (self_p t ! snd (self_link t ! l)) (smul (Fin w') (link_unit1 n l t)) \<and>
         self_p (collide_vertex ci c) ! ci = collide_point (self_coll_origin c) (self_p c ! ci) \<and>
         self_p (collide_vertex ci (c\<lparr>self_w := (self_w c)[ci := w']\<rparr>))
           = self_p (collide_vertex ci c)"
proof -
  have u: "\<not> eps < self_w u ! i"
    using assms(1) by (simp add: eps_def)
  have 1: "self_p (tether_stage u) ! i = self_p u ! i"
    using skipped_tether_stage [OF u] by (simp add: skipped_def)
  have 2: "self_p (link_stage n u) ! i = self_p u ! i"
    using skipped_link_stage [OF u] by (simp add: skipped_def)
  have 3: "self_p (collide_stage u) ! i = self_p u ! i"
    using skipped_collide_stage [OF u] by (simp add: skipped_def)
  note 4 = tether_pair_scaled [OF assms(2-4), of att]
  note 5 = link_correct_scaled [OF assms(2) assms(5-9), of n]
  have 6: "self_p (collide_vertex ci c) ! ci = collide_point (self_coll_origin c) (self_p c ! ci)"
    using assms(10,11) by (simp add: collide_vertex_p)
  note 7 = collide_vertex_any_mass [OF assms(10) assms(2)]
  from 1 2 3 4 5 6 7 show ?thesis
    by (intro conjI)
qed

theorem corrections_and_inverse_mass_witness:
  "self_w (two_vertex_sim 0 1 (Fin (1 / 2), Fin 0, Fin 0) (Fin 5, Fin 0, Fin 0)) ! 0 = 0 \<and>
   eps < 1 / 2 \<and>
   self_p (tether_sim vzero (Fin 2, Fin 0, Fin 0)) ! 1 = (Fin 2, Fin 0, Fin 0) \<and>
   self_link (two_vertex_sim 1 1 (Fin 2, Fin 0, Fin 0) vzero) ! 0 = (0, 1) \<and>
   self_p (two_vertex_sim 1 1 (Fin 2, Fin 0, Fin 0) vzero) ! 0 = (Fin 2, Fin 0, Fin 0) \<and>
   self_p (two_vertex_sim 1 1 (Fin 2, Fin 0, Fin 0) vzero) ! 1 = (Fin 0, Fin 0, Fin 0) \<and>
   eps < self_w (two_vertex_sim 1 1 (Fin (1 / 2), Fin 0, Fin 0) (Fin 5, Fin 0, Fin 0)) ! 0 \<and>
   self_p (collide_stage (two_vertex_sim 0 1 (Fin (1 / 2), Fin 0, Fin 0) (Fin 5, Fin 0, Fin 0))) ! 0
     = (Fin (1 / 2), Fin 0, Fin 0) \<and>
   tether_unit 1 0 (tether_sim vzero (Fin 2, Fin 0, Fin 0)) = (Fin (- 1 / 4), Fin 0, Fin 0) \<and>
   self_p (tether_pair 1 0 (tether_sim vzero (Fin 2, Fin 0, Fin 0))) ! 1
     = (Fin (7 / 4), Fin 0, Fin 0) \<and>
   self_p (tether_pair 1 0 ((tether_sim vzero (Fin 2, Fin 0, Fin 0))
       \<lparr>self_w := (self_w (tether_sim vzero (Fin 2, Fin 0, Fin 0)))[1 := 1 / 2]\<rparr>)) ! 1
     = (Fin (15 / 8), Fin 0, Fin 0) \<and>
   link_unit0 0 0 (two_vertex_sim 1 1 (Fin 2, Fin 0, Fin 0) vzero) = (Fin (- 9 / 20), Fin 0, Fin 0) \<and>
   self_p (link_correct 0 0 (two_vertex_sim 1 1 (Fin 2, Fin 0, Fin 0) vzero)) ! 0
     = (Fin (31 / 20), Fin 0, Fin 0) \<and>
   self_p (link_correct 0 0 ((two_vertex_sim 1 1 (Fin 2, Fin 0, Fin 0) vzero)
       \<lparr>self_w := (self_w (two_vertex_sim 1 1 (Fin 2, Fin 0, Fin 0) vzero))[0 := 1 / 2]\<rparr>)) ! 0
     = (Fin (71 / 40), Fin 0, Fin 0) \<and>
   self_p (link_correct 0 0 ((two_vertex_sim 1 1 (Fin 2, Fin 0, Fin 0) vzero)
       \<lparr>self_w := (self_w (two_vertex_sim 1 1 (Fin 2, Fin 0, Fin 0) vzero))[1 := 1 / 2]\<rparr>)) ! 1
     = (Fin (9 / 40), Fin 0, Fin 0) \<and>
   self_p (collide_vertex 0 (two_vertex_sim 1 1 (Fin (1 / 2), Fin 0, Fin 0) (Fin 5, Fin 0, Fin 0))) ! 0
     = (Fin (101 / 100), Fin 0, Fin 0) \<and>
   self_p (collide_vertex 0 ((two_vertex_sim 1 1 (Fin (1 / 2), Fin 0, Fin 0) (Fin 5, Fin 0, Fin 0))
       \<lparr>self_w := (self_w (two_vertex_sim 1 1 (Fin (1 / 2), Fin 0, Fin 0) (Fin 5, Fin 0, Fin 0)))
                   [0 := 1 / 2]\<rparr>)) ! 0
     = (Fin (101 / 100), Fin 0, Fin 0)"
proof -
  let ?u = "two_vertex_sim 0 1 (Fin (1 / 2), Fin 0, Fin 0) (Fin 5, Fin 0, Fin 0)"
  let ?s = "tether_sim vzero (Fin 2, Fin 0, Fin 0)"
  let ?t = "two_vertex_sim 1 1 (Fin 2, Fin 0, Fin 0) vzero"
  let ?c = "two_vertex_sim 1 1 (Fin (1 / 2), Fin 0, Fin 0) (Fin 5, Fin 0, Fin 0)"
  have 1: "self_w ?u ! 0 = 0" and 2: "eps < (1 / 2 :: real)"
    and 3: "1 < length (self_w ?s)" and 4: "1 < length (self_p ?s)"
    and 8: "fst (self_link ?t ! 0) \<noteq> snd (self_link ?t ! 0)"
    and 9: "fst (self_link ?t ! 0) < length (self_p ?t)"
    and 10: "snd (self_link ?t ! 0) < length (self_p ?t)"
    and 11: "fst (self_link ?t ! 0) < length (self_w ?t)"
    and 12: "snd (self_link ?t ! 0) < length (self_w ?t)"
    and 13: "eps < self_w ?c ! 0" and 14: "0 < length (self_p ?c)"
    by (simp_all add: two_vertex_sim_def tether_sim_def eps_def vzero_def)
  have i: "fst (self_link ?t ! 0) = 0" "snd (self_link ?t ! 0) = 1"
    "self_p ?t ! 0 = (Fin 2, Fin 0, Fin 0)" "self_p ?t ! 1 = (Fin 0, Fin 0, Fin 0)"
    "self_p ?s ! 1 = (Fin 2, Fin 0, Fin 0)" "self_p ?u ! 0 = (Fin (1 / 2), Fin 0, Fin 0)"
    by (simp_all add: two_vertex_sim_def tether_sim_def vzero_def)
  have s2: "sqrt 4 = (2::real)"
    using real_sqrt_abs2 [of 2] by simp
  have k: "kp_of k_stretch 0 = 9 / 10"
    by (simp add: kp_of_def k_stretch_def)
  have tu: "tether_unit 1 0 ?s = (Fin (- 1 / 4), Fin 0, Fin 0)"
    by (simp add: tether_unit_def tether_sim_def Let_def vzero_def fsub_def vnorm_axis
        tether_give_def tether_dp_def k_LRA_def)
  have q: "link_p_01 0 ?t = (Fin 2, Fin 0, Fin 0)"
    by (simp add: link_p_01_def two_vertex_sim_def vzero_def fsub_def)
  have r: "sqrt (2 * 2 + 0 * 0 + 0 * 0) \<noteq> (0::real)"
    by simp
  have l0: "link_unit0 0 0 ?t = (Fin (- 9 / 20), Fin 0, Fin 0)"
    using link_unit_finite(1) [OF q r, of 0] by (simp add: two_vertex_sim_def k s2 Let_def)
  have l1: "link_unit1 0 0 ?t = (Fin (9 / 20), Fin 0, Fin 0)"
    using link_unit_finite(2) [OF q r, of 0] by (simp add: two_vertex_sim_def k s2 Let_def)
  have cp: "collide_point (self_coll_origin ?c) (self_p ?c ! 0) = (Fin (101 / 100), Fin 0, Fin 0)"
    by (simp add: collide_point_def two_vertex_sim_def Let_def fsub_def vnorm_axis flt_def
        coll_r_def collide_dp_def)
  have t1: "self_p (tether_pair 1 0 ?s) ! 1 = (Fin (7 / 4), Fin 0, Fin 0)"
    by (simp add: tether_pair_def tether_sim_def Let_def vzero_def fsub_def vnorm_axis
        tether_give_def tether_dp_def k_LRA_def eps_def)
  have t0: "self_p (link_correct 0 0 ?t) ! 0 = (Fin (31 / 20), Fin 0, Fin 0)"
    by (simp add: link_correct_def two_vertex_sim_def Let_def vzero_def fsub_def vnorm_axis
        link_dp0_def link_dp1_def normalized_def k eps_def)
  have lk: "self_link ?t ! 0 = (0, 1)"
    by (simp add: two_vertex_sim_def)
  note w = corrections_and_inverse_mass [OF 1 2 3 4 8 9 10 11 12 13 14, of 0 0]
  note w3 = w [THEN conjunct2, THEN conjunct2, THEN conjunct1]
  note w4 = w [THEN conjunct2, THEN conjunct2, THEN conjunct2, THEN conjunct1]
  note w5 = w [THEN conjunct2, THEN conjunct2, THEN conjunct2, THEN conjunct2, THEN conjunct1]
  note w6 = w [THEN conjunct2, THEN conjunct2, THEN conjunct2, THEN conjunct2, THEN conjunct2,
      THEN conjunct1]
  note w7 = w [THEN conjunct2, THEN conjunct2, THEN conjunct2, THEN conjunct2, THEN conjunct2,
      THEN conjunct2, THEN conjunct1]
  note w8 = w [THEN conjunct2, THEN conjunct2, THEN conjunct2, THEN conjunct2, THEN conjunct2,
      THEN conjunct2, THEN conjunct2]
  have a3: "self_p (collide_stage ?u) ! 0 = (Fin (1 / 2), Fin 0, Fin 0)"
    using w3 by (simp only: i)
  have a4: "self_p (tether_pair 1 0 (?s\<lparr>self_w := (self_w ?s)[1 := 1 / 2]\<rparr>)) ! 1
      = (Fin (15 / 8), Fin 0, Fin 0)"
    using w4 unfolding i tu by simp
  have a5: "self_p (link_correct 0 0 (?t\<lparr>self_w := (self_w ?t)[0 := 1 / 2]\<rparr>)) ! 0
      = (Fin (71 / 40), Fin 0, Fin 0)"
    using w5 unfolding i l0 by simp
  have a6: "self_p (link_correct 0 0 (?t\<lparr>self_w := (self_w ?t)[1 := 1 / 2]\<rparr>)) ! 1
      = (Fin (9 / 40), Fin 0, Fin 0)"
    using w6 unfolding i l1 by simp
  have a7: "self_p (collide_vertex 0 ?c) ! 0 = (Fin (101 / 100), Fin 0, Fin 0)"
    using w7 by (simp only: cp)
  have a8: "self_p (collide_vertex 0 (?c\<lparr>self_w := (self_w ?c)[0 := 1 / 2]\<rparr>)) ! 0
      = (Fin (101 / 100), Fin 0, Fin 0)"
    using w8 a7 by (simp only:)
  from 1 2 i(5) lk i(3) i(4) 13 a3 tu t1 a4 l0 t0 a5 a6 a7 a8 show ?thesis
    by (intro conjI)
qed

end
